theory Spec2Isabelle
  imports Complex_Main "HOL-Library.AList" "HOL-Library.Sublist"
begin

section \<open>Values held by documents\<close>

text \<open>
  A stored document is a Python \<^verbatim>\<open>dict\<close> decoded from BSON; a request body is a
  \<^verbatim>\<open>dict\<close> decoded from JSON. Both are association lists from field names to values
  of the type below (lookup takes the first binding of a key, and a \<^verbatim>\<open>dict\<close>
  has one binding per key). \<open>VFloat\<close> carries the real number a finite double denotes
  (NaN and the infinities are not modelled); \<open>VOid\<close> carries the bytes of an
  \<^verbatim>\<open>ObjectId\<close> as hexadecimal digits, 24 of them for an identifier the store
  issued; a string is the list of its UTF-8 bytes.
\<close>

datatype pyval =
    VNone
  | VBool bool
  | VInt int
  | VFloat real
  | VStr string
  | VList "pyval list"
  | VDict "(string \<times> pyval) list"
  | VOid string

type_synonym doc = "(string \<times> pyval) list"

datatype error =
    TypeError
  | ValueError
  | OverflowError
  | ValidationError "string list"
  | RequestValidationError "string list"
  | HTTPException nat string
  | OperationFailure
  | StorageUnavailable
  | InvalidId

text \<open>A byte below 128: an ASCII character, which is one code point of the string.\<close>

definition is_ascii :: "char \<Rightarrow> bool" where
  "is_ascii c = (case c of Char b0 b1 b2 b3 b4 b5 b6 b7 \<Rightarrow> \<not> b7)"

text \<open>A printable ASCII character: the space, a letter, a digit or a punctuation mark.\<close>

definition is_printable :: "char \<Rightarrow> bool" where
  "is_printable c = (let n = (of_char c :: nat) in 32 \<le> n \<and> n \<le> 126)"

text \<open>Sequencing of computations that may raise: the first exception wins.\<close>

definition bnd :: "error + 'a \<Rightarrow> ('a \<Rightarrow> error + 'b) \<Rightarrow> error + 'b" where
  "bnd m f = (case m of Inl e \<Rightarrow> Inl e | Inr x \<Rightarrow> f x)"


text \<open>\<^verbatim>\<open>doc.get(k)\<close> and \<^verbatim>\<open>doc.get(k, default)\<close>: the default stands in for an absent
  key only; a key stored with the value \<^verbatim>\<open>None\<close> yields \<^verbatim>\<open>None\<close>.\<close>

definition get_default :: "doc \<Rightarrow> string \<Rightarrow> pyval \<Rightarrow> pyval" where
  "get_default d k dflt = (case map_of d k of None \<Rightarrow> dflt | Some v \<Rightarrow> v)"

definition get :: "doc \<Rightarrow> string \<Rightarrow> pyval" where
  "get d k = get_default d k VNone"

section \<open>The Python built-ins the serializers call\<close>

text \<open>
  What the program takes from its environment and this development does not fix:
  \<^item> \<open>str_of\<close>: Python's \<^verbatim>\<open>str()\<close> on a number, a list or a dict (always a string);
  \<^item> \<open>float_of_str\<close>: Python's \<^verbatim>\<open>float()\<close> on a string, \<open>None\<close> where it raises
    \<^verbatim>\<open>ValueError\<close>;
  \<^item> \<open>lax_str\<close>, \<open>lax_float\<close>, \<open>lax_bool\<close>: what pydantic's validators for \<^verbatim>\<open>str\<close>,
    \<^verbatim>\<open>float\<close> and \<^verbatim>\<open>bool\<close> fields make of a value that is neither \<^verbatim>\<open>None\<close> nor of the
    field's own type (pydantic 1 turns the number 5 into the text "5", pydantic 2
    rejects it), \<open>None\<close> where they reject;
  \<^item> \<open>http_url\<close>: pydantic's \<^verbatim>\<open>HttpUrl\<close> validator on a string, \<open>None\<close> where it rejects;
  \<^item> \<open>code_points\<close>: the characters of a string that is not all ASCII, as Python
    iterates them;
  \<^item> \<open>pcre_compiles\<close>, \<open>pcre_match\<close>: the store's regular-expression engine: whether
    a pattern compiles under given options, and whether it finds a match in a string.
    The development fixes the engine itself for a pattern of printable ASCII characters
    with no metacharacter but the dot, under no option or the option \<^verbatim>\<open>i\<close>, on an ASCII
    string.
  Every theorem below holds for every such environment.
\<close>

record env =
  str_of :: "pyval \<Rightarrow> string"
  float_of_str :: "string \<Rightarrow> real option"
  lax_str :: "pyval \<Rightarrow> string option"
  lax_float :: "pyval \<Rightarrow> real option"
  lax_bool :: "pyval \<Rightarrow> bool option"
  http_url :: "string \<Rightarrow> string option"
  code_points :: "string \<Rightarrow> string list"
  pcre_compiles :: "string \<Rightarrow> string \<Rightarrow> bool"
  pcre_match :: "string \<Rightarrow> string \<Rightarrow> string \<Rightarrow> bool"

text \<open>\<^verbatim>\<open>str(x)\<close> never raises on these values.\<close>

definition py_str :: "env \<Rightarrow> pyval \<Rightarrow> string" where
  "py_str E v =
     (case v of
        VStr s \<Rightarrow> s
      | VNone \<Rightarrow> ''None''
      | VBool b \<Rightarrow> (if b then ''True'' else ''False'')
      | VOid h \<Rightarrow> h
      | _ \<Rightarrow> str_of E v)"

text \<open>
  \<^verbatim>\<open>float(i)\<close> for an integer: the nearest double, ties to the even significand
  (53 bits), and \<^verbatim>\<open>OverflowError\<close> when that is beyond the largest double.
\<close>

function bit_length :: "int \<Rightarrow> nat" where
  "bit_length a = (if a \<le> 0 then 0 else Suc (bit_length (a div 2)))"
  by pat_completeness auto
termination
  by (relation "measure nat") auto

declare bit_length.simps [simp del]

definition nearest_double :: "int \<Rightarrow> int" where
  "nearest_double i =
     (let a = \<bar>i\<bar>; e = bit_length a - 53;
          q = a div 2 ^ e; r = a mod 2 ^ e;
          q' = (if 2 * r > 2 ^ e \<or> (2 * r = 2 ^ e \<and> odd q) then q + 1 else q)
      in sgn i * (q' * 2 ^ e))"

definition float_of_int :: "int \<Rightarrow> error + real" where
  "float_of_int i =
     (if \<bar>i\<bar> < 2 ^ 53 then Inr (of_int i)
      else if 2 ^ 1024 \<le> \<bar>nearest_double i\<bar> then Inl OverflowError
      else Inr (of_int (nearest_double i)))"

text \<open>A stored integer is a BSON int32 or int64.\<close>

definition int64 :: "int \<Rightarrow> bool" where
  "int64 i = (- (2 ^ 63) \<le> i \<and> i < 2 ^ 63)"

definition py_float :: "env \<Rightarrow> pyval \<Rightarrow> error + real" where
  "py_float E v =
     (case v of
        VFloat r \<Rightarrow> Inr r
      | VInt i \<Rightarrow> float_of_int i
      | VBool b \<Rightarrow> Inr (if b then 1 else 0)
      | VStr s \<Rightarrow> (case float_of_str E s of None \<Rightarrow> Inl ValueError | Some r \<Rightarrow> Inr r)
      | _ \<Rightarrow> Inl TypeError)"

text \<open>\<^verbatim>\<open>bool(x)\<close>: Python's truth value, total.\<close>

definition py_bool :: "pyval \<Rightarrow> bool" where
  "py_bool v =
     (case v of
        VNone \<Rightarrow> False
      | VBool b \<Rightarrow> b
      | VInt i \<Rightarrow> i \<noteq> 0
      | VFloat r \<Rightarrow> r \<noteq> 0
      | VStr s \<Rightarrow> s \<noteq> []
      | VList xs \<Rightarrow> xs \<noteq> []
      | VDict kvs \<Rightarrow> kvs \<noteq> []
      | VOid h \<Rightarrow> True)"

text \<open>\<^verbatim>\<open>for x in v\<close>: a list yields its elements, a string its characters (one per
  byte when the string is ASCII), a dict its keys; anything else is not iterable.\<close>

definition py_iter :: "env \<Rightarrow> pyval \<Rightarrow> error + pyval list" where
  "py_iter E v =
     (case v of
        VList xs \<Rightarrow> Inr xs
      | VStr s \<Rightarrow>
          Inr (map VStr (if list_all is_ascii s then map (\<lambda>c. [c]) s else code_points E s))
      | VDict kvs \<Rightarrow> Inr (map (\<lambda>kv. VStr (fst kv)) kvs)
      | _ \<Rightarrow> Inl TypeError)"

text \<open>\<^verbatim>\<open>[str(x) for x in v]\<close>\<close>

definition str_list :: "env \<Rightarrow> pyval \<Rightarrow> error + string list" where
  "str_list E v = bnd (py_iter E v) (\<lambda>xs. Inr (map (py_str E) xs))"

section \<open>Output models and serializers (main.py)\<close>

text \<open>pydantic's validation of a \<^verbatim>\<open>str\<close> field and of an \<^verbatim>\<open>Optional[str]\<close> field:
  \<open>None\<close> is the rejection.\<close>

definition str_field :: "env \<Rightarrow> pyval \<Rightarrow> string option" where
  "str_field E v = (case v of VStr s \<Rightarrow> Some s | VNone \<Rightarrow> None | _ \<Rightarrow> lax_str E v)"

definition opt_str_field :: "env \<Rightarrow> pyval \<Rightarrow> string option option" where
  "opt_str_field E v = (case v of VNone \<Rightarrow> Some None | _ \<Rightarrow> map_option Some (str_field E v))"

text \<open>The names of the fields a validation rejects, in declaration order.\<close>

definition rejected :: "(string \<times> bool) list \<Rightarrow> string list" where
  "rejected checks = map fst (filter (\<lambda>c. \<not> snd c) checks)"

record BannerOut =
  id :: string
  title :: string
  subtitle :: "string option"
  image :: "string option"
  slug :: string

record ProductOut =
  id :: string
  title :: string
  description :: "string option"
  price :: real
  category :: string
  images :: "string list"
  sizes :: "string list"
  in_stock :: bool
  is_trending :: bool
  is_new :: bool
  is_best_seller :: bool
  season :: "string option"
  on_sale :: bool
  sale_price :: "real option"

text \<open>
  \<^verbatim>\<open>ProductOut(id=..., title=..., ...)\<close>: the constructor validates every field and
  raises one \<^verbatim>\<open>ValidationError\<close> naming all the fields it rejects. The serializer
  hands it \<open>id\<close>, \<open>price\<close>, the lists, the booleans and \<open>sale_price\<close> already
  converted, so only the four fields passed as stored can be rejected.
\<close>

definition new_ProductOut ::
  "env \<Rightarrow> string \<Rightarrow> pyval \<Rightarrow> pyval \<Rightarrow> real \<Rightarrow> pyval \<Rightarrow> string list \<Rightarrow> string list \<Rightarrow>
   bool \<Rightarrow> bool \<Rightarrow> bool \<Rightarrow> bool \<Rightarrow> pyval \<Rightarrow> bool \<Rightarrow> real option \<Rightarrow> error + ProductOut" where
  "new_ProductOut E i t d p c ims szs stock trend nw best sea sale sp =
     (case rejected
             [(''title'', str_field E t \<noteq> None),
              (''description'', opt_str_field E d \<noteq> None),
              (''category'', str_field E c \<noteq> None),
              (''season'', opt_str_field E sea \<noteq> None)] of
        [] \<Rightarrow>
          Inr \<lparr>ProductOut.id = i, title = the (str_field E t),
               description = the (opt_str_field E d), price = p,
               category = the (str_field E c), images = ims, sizes = szs,
               in_stock = stock, is_trending = trend, is_new = nw, is_best_seller = best,
               season = the (opt_str_field E sea), on_sale = sale, sale_price = sp\<rparr>
      | bad \<Rightarrow> Inl (ValidationError bad))"

definition new_BannerOut ::
  "env \<Rightarrow> string \<Rightarrow> pyval \<Rightarrow> pyval \<Rightarrow> pyval \<Rightarrow> pyval \<Rightarrow> error + BannerOut" where
  "new_BannerOut E i t sub img sl =
     (case rejected
             [(''title'', str_field E t \<noteq> None),
              (''subtitle'', opt_str_field E sub \<noteq> None),
              (''image'', opt_str_field E img \<noteq> None),
              (''slug'', str_field E sl \<noteq> None)] of
        [] \<Rightarrow>
          Inr \<lparr>BannerOut.id = i, title = the (str_field E t),
               subtitle = the (opt_str_field E sub), image = the (opt_str_field E img),
               slug = the (str_field E sl)\<rparr>
      | bad \<Rightarrow> Inl (ValidationError bad))"

text \<open>
  \<^verbatim>\<open>serialize_product\<close>: Python evaluates the keyword arguments left to right, so the
  conversions that can raise (\<^verbatim>\<open>float\<close> of the price, the two comprehensions,
  \<^verbatim>\<open>float\<close> of the sale price) come in that order, before the constructor validates.
\<close>

definition serialize_product :: "env \<Rightarrow> doc \<Rightarrow> error + ProductOut" where
  "serialize_product E doc =
     bnd (py_float E (get_default doc ''price'' (VInt 0))) (\<lambda>p.
     bnd (str_list E (get_default doc ''images'' (VList []))) (\<lambda>ims.
     bnd (str_list E (get_default doc ''sizes'' (VList []))) (\<lambda>szs.
     bnd (if get doc ''sale_price'' \<noteq> VNone
          then bnd (py_float E (get doc ''sale_price'')) (\<lambda>r. Inr (Some r))
          else Inr None) (\<lambda>sp.
     new_ProductOut E
       (py_str E (get doc ''_id''))
       (get doc ''title'')
       (get doc ''description'')
       p
       (get doc ''category'')
       ims
       szs
       (py_bool (get_default doc ''in_stock'' (VBool True)))
       (py_bool (get_default doc ''is_trending'' (VBool False)))
       (py_bool (get_default doc ''is_new'' (VBool False)))
       (py_bool (get_default doc ''is_best_seller'' (VBool False)))
       (get doc ''season'')
       (py_bool (get_default doc ''on_sale'' (VBool False)))
       sp))))"

definition serialize_banner :: "env \<Rightarrow> doc \<Rightarrow> error + BannerOut" where
  "serialize_banner E doc =
     new_BannerOut E
       (py_str E (get doc ''_id''))
       (get doc ''title'')
       (get doc ''subtitle'')
       (get doc ''image'')
       (get doc ''slug'')"

section \<open>Query filters and their meaning in the store\<close>

text \<open>
  A filter is the \<^verbatim>\<open>dict\<close> handed to \<^verbatim>\<open>find\<close>: each key is a stored field name, each
  value either a plain value (equality) or \<^verbatim>\<open>{"$regex": p, "$options": o}\<close>.
\<close>

datatype cond = Eq pyval | Regex string string

type_synonym query = "(string \<times> cond) list"

text \<open>\<^verbatim>\<open>if s:\<close> for an optional string: false for \<^verbatim>\<open>None\<close> and for the empty string.\<close>

definition truthy :: "string option \<Rightarrow> bool" where
  "truthy s = (case s of None \<Rightarrow> False | Some t \<Rightarrow> t \<noteq> [])"

text \<open>The filter \<^verbatim>\<open>list_products\<close> builds, assignment by assignment.\<close>

definition build_filter ::
  "string option \<Rightarrow> bool option \<Rightarrow> bool option \<Rightarrow> bool option \<Rightarrow> string option \<Rightarrow>
   bool option \<Rightarrow> string option \<Rightarrow> query" where
  "build_filter category' trending new best season' sale q =
     (let filt = [];
          filt = (if truthy category'
                  then AList.update ''category'' (Eq (VStr (the category'))) filt else filt);
          filt = (if truthy season'
                  then AList.update ''season'' (Eq (VStr (the season'))) filt else filt);
          filt = (if trending \<noteq> None
                  then AList.update ''is_trending'' (Eq (VBool (the trending))) filt else filt);
          filt = (if new \<noteq> None
                  then AList.update ''is_new'' (Eq (VBool (the new))) filt else filt);
          filt = (if best \<noteq> None
                  then AList.update ''is_best_seller'' (Eq (VBool (the best))) filt else filt);
          filt = (if sale \<noteq> None
                  then AList.update ''on_sale'' (Eq (VBool (the sale))) filt else filt);
          filt = (if truthy q
                  then AList.update ''title'' (Regex (the q) ''i'') filt else filt)
      in filt)"

subsection \<open>Regular expressions\<close>

text \<open>
  The store reads the pattern as a Perl-compatible regular expression and searches the
  field for it, unanchored. Fixed here: a pattern of printable ASCII characters, each an
  ordinary character or the dot, under no option or the option \<^verbatim>\<open>i\<close>, searched in an
  ASCII string. There a character is a byte, an ordinary character stands for itself,
  the dot stands for any character but the newline, and the option \<^verbatim>\<open>i\<close> folds the 26
  letters. Every other pattern, option and string is the environment's.
\<close>

datatype atom = Lit char | AnyChar

definition metachars :: "char list" where
  "metachars =
     [CHR 0x5C, CHR ''^'', CHR ''$'', CHR ''.'', CHR ''['', CHR '']'', CHR ''|'',
      CHR ''('', CHR '')'', CHR ''?'', CHR ''*'', CHR ''+'', CHR ''{'', CHR ''}'']"

text \<open>The pattern as a list of atoms, \<open>None\<close> when it is not of the fixed kind.\<close>

fun atoms :: "string \<Rightarrow> atom list option" where
  "atoms [] = Some []"
| "atoms (c # cs) =
     (if c = CHR ''.'' then map_option ((#) AnyChar) (atoms cs)
      else if c \<in> set metachars \<or> \<not> is_printable c then None
      else map_option ((#) (Lit c)) (atoms cs))"

text \<open>Case folding of an ASCII character.\<close>

definition lower :: "char \<Rightarrow> char" where
  "lower c =
     (case map_of (zip ''ABCDEFGHIJKLMNOPQRSTUVWXYZ'' ''abcdefghijklmnopqrstuvwxyz'') c of
        None \<Rightarrow> c
      | Some l \<Rightarrow> l)"

text \<open>One atom against one character of an ASCII string.\<close>

definition atom_ok :: "bool \<Rightarrow> atom \<Rightarrow> char \<Rightarrow> bool" where
  "atom_ok ci a c =
     (case a of
        AnyChar \<Rightarrow> c \<noteq> CHR 0x0A
      | Lit l \<Rightarrow> (if ci then lower l = lower c else l = c))"

fun match_here :: "bool \<Rightarrow> atom list \<Rightarrow> string \<Rightarrow> bool" where
  "match_here ci [] s = True"
| "match_here ci (a # as) [] = False"
| "match_here ci (a # as) (c # cs) = (atom_ok ci a c \<and> match_here ci as cs)"

fun search :: "bool \<Rightarrow> atom list \<Rightarrow> string \<Rightarrow> bool" where
  "search ci as [] = match_here ci as []"
| "search ci as (c # cs) = (match_here ci as (c # cs) \<or> search ci as cs)"

text \<open>The matcher of a pattern under options, \<open>None\<close> when the pattern does not
  compile. A pattern of the fixed kind always compiles.\<close>

definition regex :: "env \<Rightarrow> string \<Rightarrow> string \<Rightarrow> (string \<Rightarrow> bool) option" where
  "regex E p opts =
     (case (if opts = [] \<or> opts = ''i'' then atoms p else None) of
        Some as \<Rightarrow>
          Some (\<lambda>s. if list_all is_ascii s then search (opts = ''i'') as s
                     else pcre_match E p opts s)
      | None \<Rightarrow> if pcre_compiles E p opts then Some (pcre_match E p opts) else None)"

subsection \<open>Matching a document\<close>

text \<open>
  One condition, on the value a document holds under the key (\<open>None\<close>: no such key).
  Equality holds for a field equal to the value and for an array field with an element
  equal to it; a regular expression holds for a string it finds a match in and for an
  array with such a string. A pattern that does not compile fails the whole query.
\<close>

definition cond_holds :: "env \<Rightarrow> cond \<Rightarrow> (pyval option \<Rightarrow> bool) option" where
  "cond_holds E c =
     (case c of
        Eq x \<Rightarrow>
          Some (\<lambda>v. case v of
                       None \<Rightarrow> x = VNone
                     | Some (VList ys) \<Rightarrow> VList ys = x \<or> x \<in> set ys
                     | Some y \<Rightarrow> y = x)
      | Regex p opts \<Rightarrow>
          (case regex E p opts of
             None \<Rightarrow> None
           | Some m \<Rightarrow>
               Some (\<lambda>v. case v of
                            Some (VStr s) \<Rightarrow> m s
                          | Some (VList ys) \<Rightarrow> list_ex (\<lambda>y. case y of VStr s \<Rightarrow> m s | _ \<Rightarrow> False) ys
                          | _ \<Rightarrow> False)))"

text \<open>All the conditions of a filter must hold: the filter is their conjunction.\<close>

fun matches :: "env \<Rightarrow> query \<Rightarrow> (doc \<Rightarrow> bool) option" where
  "matches E [] = Some (\<lambda>d. True)"
| "matches E ((k, c) # kcs) =
     (case cond_holds E c of
        None \<Rightarrow> None
      | Some h \<Rightarrow>
          (case matches E kcs of
             None \<Rightarrow> None
           | Some rest \<Rightarrow> Some (\<lambda>d. h (map_of d k) \<and> rest d)))"

text \<open>The verdict of a filter on one document; \<open>None\<close> when the query fails.\<close>

definition matches_doc :: "env \<Rightarrow> query \<Rightarrow> doc \<Rightarrow> bool option" where
  "matches_doc E filt d = map_option (\<lambda>m. m d) (matches E filt)"


section \<open>The document store\<close>

text \<open>
  The store holds named collections of documents in insertion order, hands out
  identifiers from a counter, and keeps the list of the operations it was asked to
  perform. \<open>db\<close> is \<open>None\<close> when the process has no connection.
\<close>

datatype call = CountDocuments string | InsertOne string | Find string | FindOne string

record store =
  colls :: "string \<Rightarrow> doc list"
  next_oid :: nat
  calls :: "call list"

type_synonym db = "store option"

definition hex24 :: "nat \<Rightarrow> string" where
  "hex24 n = map (\<lambda>k. ''0123456789abcdef'' ! ((n div 16 ^ k) mod 16)) (rev [0..<24])"

definition count_documents :: "store \<Rightarrow> string \<Rightarrow> nat \<times> store" where
  "count_documents st c = (length (colls st c), st\<lparr>calls := calls st @ [CountDocuments c]\<rparr>)"

text \<open>\<^verbatim>\<open>insert_one\<close> gives a document without \<^verbatim>\<open>_id\<close> a fresh one and returns it
  (the store's refusal of an identifier it already holds is not modelled; the program
  never inserts a document that brings its own).\<close>

definition insert_one :: "store \<Rightarrow> string \<Rightarrow> doc \<Rightarrow> pyval \<times> store" where
  "insert_one st c d =
     (case map_of d ''_id'' of
        Some i \<Rightarrow>
          (i, st\<lparr>colls := (colls st)(c := colls st c @ [d]),
                 calls := calls st @ [InsertOne c]\<rparr>)
      | None \<Rightarrow>
          (VOid (hex24 (next_oid st)),
           st\<lparr>colls := (colls st)(c := colls st c @ [d @ [(''_id'', VOid (hex24 (next_oid st)))]]),
              next_oid := Suc (next_oid st),
              calls := calls st @ [InsertOne c]\<rparr>))"

text \<open>A stored document as it was handed to the store, without the identifier.\<close>

definition without_id :: "doc \<Rightarrow> doc" where
  "without_id d = filter (\<lambda>kv. fst kv \<noteq> ''_id'') d"








section \<open>Endpoints (main.py)\<close>




subsection \<open>Seeding\<close>

definition seed_banners :: "doc list" where
  "seed_banners =
     [[(''title'', VStr ''Mega Sale''),
       (''subtitle'', VStr ''Up to 60% OFF on top styles''),
       (''image'', VStr ''https://images.unsplash.com/photo-1542291026-7eec264c27ff?w=1600&q=80&auto=format&fit=crop''),
       (''slug'', VStr ''mega-sale'')],
      [(''title'', VStr ''New Collection 2025''),
       (''subtitle'', VStr ''Fresh arrivals for the new season''),
       (''image'', VStr ''https://images.unsplash.com/photo-1520975922203-b5d0b0d75136?w=1600&q=80&auto=format&fit=crop''),
       (''slug'', VStr ''new-collection-2025'')],
      [(''title'', VStr ''Limited Stock Available''),
       (''subtitle'', VStr (''Grab your favorites before they'' @ [CHR 0xE2, CHR 0x80, CHR 0x99] @ ''re gone'')),
       (''image'', VStr ''https://images.unsplash.com/photo-1512436991641-6745cdb1723f?w=1600&q=80&auto=format&fit=crop''),
       (''slug'', VStr ''limited-stock'')]]"

definition sample_products :: "doc list" where
  "sample_products =
     [[(''title'', VStr ''Classic Black Tee''),
       (''description'', VStr ''Premium cotton, perfect fit.''),
       (''price'', VInt 2499),
       (''category'', VStr ''Men''),
       (''images'', VList [VStr ''https://images.unsplash.com/photo-1520975922203-b5d0b0d75136?w=1200&auto=format&fit=crop&q=80'']),
       (''sizes'', VList [VStr ''S'', VStr ''M'', VStr ''L'', VStr ''XL'']),
       (''in_stock'', VBool True),
       (''is_trending'', VBool True),
       (''is_new'', VBool False),
       (''is_best_seller'', VBool True),
       (''season'', VStr ''Summer''),
       (''on_sale'', VBool True),
       (''sale_price'', VInt 1999)],
      [(''title'', VStr ''Gold Accent Hoodie''),
       (''description'', VStr ''Cozy fleece with subtle gold detail.''),
       (''price'', VInt 4999),
       (''category'', VStr ''Women''),
       (''images'', VList [VStr ''https://images.unsplash.com/photo-1519741497674-611481863552?w=1200&auto=format&fit=crop&q=80'']),
       (''sizes'', VList [VStr ''S'', VStr ''M'', VStr ''L'', VStr ''XL'']),
       (''in_stock'', VBool True),
       (''is_trending'', VBool True),
       (''is_new'', VBool True),
       (''is_best_seller'', VBool False),
       (''season'', VStr ''Winter''),
       (''on_sale'', VBool False)],
      [(''title'', VStr ''Kids Summer Set''),
       (''description'', VStr ''Light and comfy two-piece.''),
       (''price'', VInt 2999),
       (''category'', VStr ''Kids''),
       (''images'', VList [VStr ''https://images.unsplash.com/photo-1520975432204-8d8a9f9a9f3b?w=1200&auto=format&fit=crop&q=80'']),
       (''sizes'', VList [VStr ''S'', VStr ''M'', VStr ''L'']),
       (''in_stock'', VBool True),
       (''is_trending'', VBool False),
       (''is_new'', VBool True),
       (''is_best_seller'', VBool False),
       (''season'', VStr ''Summer''),
       (''on_sale'', VBool False)]]"

text \<open>\<^verbatim>\<open>for d in docs: db[c].insert_one(d); created[...] += 1\<close>, the counter threaded
  with the store.\<close>

fun insert_each :: "store \<Rightarrow> string \<Rightarrow> doc list \<Rightarrow> int \<Rightarrow> int \<times> store" where
  "insert_each st c [] n = (n, st)"
| "insert_each st c (d # ds) n = insert_each (snd (insert_one st c d)) c ds (n + 1)"

text \<open>The response \<^verbatim>\<open>{"status": "ok", **created}\<close> with
  \<^verbatim>\<open>created = {"products": ..., "banners": ...}\<close>.\<close>

definition seed_data :: "db \<Rightarrow> (error + doc) \<times> db" where
  "seed_data db =
     (case db of
        None \<Rightarrow> (Inl (HTTPException 500 ''Database not available''), db)
      | Some st \<Rightarrow>
          (let (nb, st) = count_documents st ''banner'';
               (banners, st) = (if nb = 0 then insert_each st ''banner'' seed_banners 0 else (0, st));
               (np, st) = count_documents st ''product'';
               (products, st) = (if np = 0 then insert_each st ''product'' sample_products 0 else (0, st))
           in (Inr [(''status'', VStr ''ok''), (''products'', VInt products), (''banners'', VInt banners)],
               Some st)))"

section \<open>The Product schema (schemas.py) and the write endpoint\<close>

text \<open>
  Field validators of the request model: each takes the value the body holds and
  returns the value the model stores, \<open>None\<close> where pydantic rejects it.
\<close>

definition s_str :: "env \<Rightarrow> pyval \<Rightarrow> pyval option" where
  "s_str E v = map_option VStr (str_field E v)"

definition s_float :: "env \<Rightarrow> pyval \<Rightarrow> real option" where
  "s_float E v =
     (case v of
        VFloat r \<Rightarrow> Some r
      | VInt i \<Rightarrow> (case float_of_int i of Inl e \<Rightarrow> None | Inr r \<Rightarrow> Some r)
      | VNone \<Rightarrow> None
      | _ \<Rightarrow> lax_float E v)"

text \<open>\<^verbatim>\<open>Field(..., ge=0)\<close> on a float.\<close>

definition s_float_ge0 :: "env \<Rightarrow> pyval \<Rightarrow> pyval option" where
  "s_float_ge0 E v =
     (case s_float E v of None \<Rightarrow> None | Some r \<Rightarrow> if 0 \<le> r then Some (VFloat r) else None)"

definition s_bool :: "env \<Rightarrow> pyval \<Rightarrow> pyval option" where
  "s_bool E v =
     (case v of
        VBool b \<Rightarrow> Some (VBool b)
      | VNone \<Rightarrow> None
      | _ \<Rightarrow> map_option VBool (lax_bool E v))"

definition s_url :: "env \<Rightarrow> pyval \<Rightarrow> pyval option" where
  "s_url E v = (case v of VStr s \<Rightarrow> map_option VStr (http_url E s) | _ \<Rightarrow> None)"

fun those_ok :: "'a option list \<Rightarrow> 'a list option" where
  "those_ok [] = Some []"
| "those_ok (x # xs) =
     (case x of None \<Rightarrow> None | Some y \<Rightarrow> map_option ((#) y) (those_ok xs))"

definition s_list :: "(pyval \<Rightarrow> pyval option) \<Rightarrow> pyval \<Rightarrow> pyval option" where
  "s_list f v = (case v of VList xs \<Rightarrow> map_option VList (those_ok (map f xs)) | _ \<Rightarrow> None)"

text \<open>\<^verbatim>\<open>Optional[T]\<close>: \<^verbatim>\<open>None\<close> is accepted as it is.\<close>

definition s_optional :: "(pyval \<Rightarrow> pyval option) \<Rightarrow> pyval \<Rightarrow> pyval option" where
  "s_optional f v = (case v of VNone \<Rightarrow> Some VNone | _ \<Rightarrow> f v)"

text \<open>\<^verbatim>\<open>Field(...)\<close>: the field is required. \<^verbatim>\<open>Field(default)\<close>: an absent field takes
  the default, which is not validated.\<close>

definition required :: "(pyval \<Rightarrow> pyval option) \<Rightarrow> pyval option \<Rightarrow> pyval option" where
  "required f v = (case v of None \<Rightarrow> None | Some x \<Rightarrow> f x)"

definition with_default :: "pyval \<Rightarrow> (pyval \<Rightarrow> pyval option) \<Rightarrow> pyval option \<Rightarrow> pyval option" where
  "with_default dflt f v = (case v of None \<Rightarrow> Some dflt | Some x \<Rightarrow> f x)"

text \<open>The class \<^verbatim>\<open>Product\<close>, field by field in declaration order.\<close>

definition Product_fields :: "env \<Rightarrow> doc \<Rightarrow> (string \<times> pyval option) list" where
  "Product_fields E body =
     [(''title'', required (s_str E) (map_of body ''title'')),
      (''description'', with_default VNone (s_optional (s_str E)) (map_of body ''description'')),
      (''price'', required (s_float_ge0 E) (map_of body ''price'')),
      (''category'', required (s_str E) (map_of body ''category'')),
      (''images'', with_default (VList []) (s_list (s_url E)) (map_of body ''images'')),
      (''sizes'', with_default (VList [VStr ''S'', VStr ''M'', VStr ''L'', VStr ''XL''])
                   (s_list (s_str E)) (map_of body ''sizes'')),
      (''in_stock'', with_default (VBool True) (s_bool E) (map_of body ''in_stock'')),
      (''is_trending'', with_default (VBool False) (s_bool E) (map_of body ''is_trending'')),
      (''is_new'', with_default (VBool False) (s_bool E) (map_of body ''is_new'')),
      (''is_best_seller'', with_default (VBool False) (s_bool E) (map_of body ''is_best_seller'')),
      (''season'', with_default VNone (s_optional (s_str E)) (map_of body ''season'')),
      (''on_sale'', with_default (VBool False) (s_bool E) (map_of body ''on_sale'')),
      (''sale_price'', with_default VNone (s_optional (s_float_ge0 E)) (map_of body ''sale_price''))]"

text \<open>Validating a request body: the model as a document, or the rejected fields.\<close>

definition Product :: "env \<Rightarrow> doc \<Rightarrow> error + doc" where
  "Product E body =
     (case rejected (map (\<lambda>f. (fst f, snd f \<noteq> None)) (Product_fields E body)) of
        [] \<Rightarrow> Inr (map (\<lambda>f. (fst f, the (snd f))) (Product_fields E body))
      | bad \<Rightarrow> Inl (RequestValidationError bad))"

text \<open>
  Modelled from the spec: \<^verbatim>\<open>create_document\<close> of the module \<^verbatim>\<open>database\<close>, which is not
  among the sources. The spec: it persists the record into the named collection and
  returns a newly assigned unique identifier, and fails with a
  \<^verbatim>\<open>StorageUnavailable\<close> error if no connection is established.
\<close>

definition create_document :: "env \<Rightarrow> db \<Rightarrow> string \<Rightarrow> doc \<Rightarrow> (error + string) \<times> db" where
  "create_document E db c d =
     (case db of
        None \<Rightarrow> (Inl StorageUnavailable, db)
      | Some st \<Rightarrow> (let (i, st') = insert_one st c d in (Inr (py_str E i), Some st')))"

text \<open>\<^verbatim>\<open>create_product(payload: ProductSchema)\<close>: the framework validates the body
  against the schema and calls the handler only with a valid model.\<close>

definition create_product :: "env \<Rightarrow> db \<Rightarrow> doc \<Rightarrow> (error + string) \<times> db" where
  "create_product E db body =
     (case Product E body of
        Inl e \<Rightarrow> (Inl e, db)
      | Inr payload \<Rightarrow> create_document E db ''product'' payload)"

section \<open>Shapes of stored documents\<close>

text \<open>What a field of a stored document may hold: \<open>None\<close> is an absent key.\<close>

definition is_text :: "pyval option \<Rightarrow> bool" where
  "is_text v = (case v of Some (VStr s) \<Rightarrow> True | _ \<Rightarrow> False)"

definition is_opt_text :: "pyval option \<Rightarrow> bool" where
  "is_opt_text v = (case v of None \<Rightarrow> True | Some VNone \<Rightarrow> True | Some (VStr s) \<Rightarrow> True | _ \<Rightarrow> False)"

definition is_number :: "pyval option \<Rightarrow> bool" where
  "is_number v =
     (case v of
        Some (VInt i) \<Rightarrow> int64 i
      | Some (VFloat r) \<Rightarrow> True
      | Some (VBool b) \<Rightarrow> True
      | _ \<Rightarrow> False)"

definition is_sequence :: "pyval option \<Rightarrow> bool" where
  "is_sequence v =
     (case v of
        Some (VList xs) \<Rightarrow> True
      | Some (VStr s) \<Rightarrow> True
      | Some (VDict kvs) \<Rightarrow> True
      | _ \<Rightarrow> False)"

text \<open>
  A product document that names its title and category as text and whose other fields,
  where it has them, hold values of the declared kind: text (or null) for the
  description and the season, a number for the price, a number (or null) for the sale
  price, something iterable for the images and the sizes. Any field but the title and
  the category may be missing; the identifier and the five flags may hold anything.
\<close>

definition product_shape :: "doc \<Rightarrow> bool" where
  "product_shape d =
     (is_text (map_of d ''title'')
      \<and> is_text (map_of d ''category'')
      \<and> is_opt_text (map_of d ''description'')
      \<and> is_opt_text (map_of d ''season'')
      \<and> (map_of d ''price'' = None \<or> is_number (map_of d ''price''))
      \<and> (map_of d ''sale_price'' = None \<or> map_of d ''sale_price'' = Some VNone
           \<or> is_number (map_of d ''sale_price''))
      \<and> (map_of d ''images'' = None \<or> is_sequence (map_of d ''images''))
      \<and> (map_of d ''sizes'' = None \<or> is_sequence (map_of d ''sizes'')))"

definition banner_shape :: "doc \<Rightarrow> bool" where
  "banner_shape d =
     (is_text (map_of d ''title'')
      \<and> is_text (map_of d ''slug'')
      \<and> is_opt_text (map_of d ''subtitle'')
      \<and> is_opt_text (map_of d ''image''))"

text \<open>The \<^verbatim>\<open>sale_price\<close> argument of \<^verbatim>\<open>serialize_product\<close>, on its own.\<close>

definition sale_arg :: "env \<Rightarrow> doc \<Rightarrow> error + real option" where
  "sale_arg E d = (if get d ''sale_price'' \<noteq> VNone
          then bnd (py_float E (get d ''sale_price'')) (\<lambda>r. Inr (Some r))
          else Inr None)"

section \<open>A small store for the examples\<close>

definition store0 :: store where
  "store0 =
     \<lparr>colls = (\<lambda>c. if c = ''product''
                     then [[(''_id'', VOid ''000000000000000000000001''), (''title'', VStr ''Tee''),
                            (''price'', VInt 1000), (''category'', VStr ''Men'')],
                           [(''_id'', VOid ''000000000000000000000002''), (''title'', VStr ''Hoodie''),
                            (''price'', VFloat 4999), (''category'', VStr ''Women'')]]
                     else []),
      next_oid = 3, calls = []\<rparr>"

definition empty_store :: store where
  "empty_store = \<lparr>colls = (\<lambda>c. []), next_oid = 0, calls = []\<rparr>"

section \<open>Conversion of stored integers\<close>

lemma bit_length_lower: "0 < a \<Longrightarrow> 2 ^ (bit_length a - 1) \<le> a"
proof (induction a rule: bit_length.induct)
  case (1 a)
  have step: "bit_length a = Suc (bit_length (a div 2))"
    using 1(2) by (subst bit_length.simps) simp
  show ?case
  proof (cases "a div 2 > 0")
    case True
    with 1 have "2 ^ (bit_length (a div 2) - 1) \<le> a div 2" by simp
    moreover have "bit_length (a div 2) > 0"
      using True by (subst bit_length.simps) simp
    ultimately show ?thesis using step by (cases "bit_length (a div 2)") auto
  next
    case False
    then have "a div 2 \<le> 0" by simp
    then have "bit_length (a div 2) = 0" by (subst bit_length.simps) simp
    then show ?thesis using step 1(2) by simp
  qed
qed

text \<open>Rounding to 53 bits at most doubles the magnitude.\<close>

lemma nearest_double_le: "\<bar>nearest_double i\<bar> \<le> 2 * \<bar>i\<bar>"
proof -
  define a where "a = \<bar>i\<bar>"
  define e where "e = bit_length a - 53"
  define q where "q = a div 2 ^ e"
  define r where "r = a mod 2 ^ e"
  define q' where "q' = (if 2 * r > 2 ^ e \<or> (2 * r = 2 ^ e \<and> odd q) then q + 1 else q)"
  have nd: "nearest_double i = sgn i * (q' * 2 ^ e)"
    by (simp add: nearest_double_def Let_def a_def e_def q_def r_def q'_def)
  have a0: "0 \<le> a" by (simp add: a_def)
  have q0: "0 \<le> q" using a0 by (simp add: q_def pos_imp_zdiv_nonneg_iff)
  have "a = q * 2 ^ e + r" unfolding q_def r_def by (rule div_mult_mod_eq [symmetric])
  moreover have "0 \<le> r" by (simp add: r_def)
  ultimately have qa: "q * 2 ^ e \<le> a" by linarith
  have pe: "q' * 2 ^ e \<le> 2 * a"
  proof (cases "e = 0")
    case True
    then have "r = 0" "q = a" by (simp_all add: r_def q_def)
    then have "q' = a" using True by (simp add: q'_def)
    then show ?thesis using a0 True by simp
  next
    case False
    then have "bit_length a \<noteq> 0" by (simp add: e_def)
    then have "0 < a" by (subst (asm) bit_length.simps) (simp split: if_splits)
    then have "2 ^ (bit_length a - 1) \<le> a" by (rule bit_length_lower)
    moreover have "(2::int) ^ e \<le> 2 ^ (bit_length a - 1)"
      by (rule power_increasing) (simp_all add: e_def)
    ultimately have "2 ^ e \<le> a" by linarith
    moreover have "q' * 2 ^ e \<le> q * 2 ^ e + 2 ^ e"
      by (simp add: q'_def algebra_simps)
    ultimately show ?thesis using qa by linarith
  qed
  have q'0: "0 \<le> q'" using q0 by (simp add: q'_def)
  then have nn: "0 \<le> q' * 2 ^ e" by simp
  have "\<bar>nearest_double i\<bar> = \<bar>sgn i\<bar> * (q' * 2 ^ e)"
    using q'0 by (simp add: nd abs_mult)
  also have "\<dots> \<le> q' * 2 ^ e" using nn by (cases "i = 0") (simp_all add: abs_sgn_eq)
  finally show ?thesis using pe by (simp add: a_def)
qed

text \<open>\<^verbatim>\<open>float\<close> never overflows on a stored integer.\<close>

lemma float_of_int_int64:
  assumes "int64 i"
  shows "float_of_int i = Inr (if \<bar>i\<bar> < 2 ^ 53 then of_int i else of_int (nearest_double i))"
proof -
  from assms have "\<bar>i\<bar> \<le> 2 ^ 63" unfolding int64_def by linarith
  moreover have "(2::int) * 2 ^ 63 = 2 ^ 64" by simp
  ultimately have "\<bar>nearest_double i\<bar> \<le> 2 ^ 64" using nearest_double_le [of i] by linarith
  moreover have "(2::int) ^ 64 < 2 ^ 1024" by (rule power_strict_increasing) simp_all
  ultimately have "\<not> 2 ^ 1024 \<le> \<bar>nearest_double i\<bar>" by linarith
  then show ?thesis unfolding float_of_int_def by (simp only: if_False split: if_splits) simp
qed

section \<open>The filter of the product list\<close>

lemma build_filter_eq:
  "build_filter c t n b s sa q =
     (if truthy c then [(''category'', Eq (VStr (the c)))] else []) @
     (if truthy s then [(''season'', Eq (VStr (the s)))] else []) @
     (if t \<noteq> None then [(''is_trending'', Eq (VBool (the t)))] else []) @
     (if n \<noteq> None then [(''is_new'', Eq (VBool (the n)))] else []) @
     (if b \<noteq> None then [(''is_best_seller'', Eq (VBool (the b)))] else []) @
     (if sa \<noteq> None then [(''on_sale'', Eq (VBool (the sa)))] else []) @
     (if truthy q then [(''title'', Regex (the q) ''i'')] else [])"
  by (simp add: build_filter_def)

lemma matches_doc_conj:
  "matches_doc E filt d =
     (if list_all (\<lambda>kc. cond_holds E (snd kc) \<noteq> None) filt
      then Some (list_all (\<lambda>kc. the (cond_holds E (snd kc)) (map_of d (fst kc))) filt)
      else None)"
  by (induction filt) (auto simp: matches_doc_def split: option.splits)

text \<open>
  C8. An empty string for \<^verbatim>\<open>category\<close>, \<^verbatim>\<open>season\<close> or \<^verbatim>\<open>q\<close> builds the filter the
  omitted parameter builds, whatever the other parameters are; no filter holds an
  equality with the empty string or a search for the empty pattern.
\<close>

theorem empty_string_is_unset:
  "build_filter (Some []) t n b s sa q = build_filter None t n b s sa q
   \<and> build_filter c t n b (Some []) sa q = build_filter c t n b None sa q
   \<and> build_filter c t n b s sa (Some []) = build_filter c t n b s sa None
   \<and> (k, Eq (VStr [])) \<notin> set (build_filter c t n b s sa q)
   \<and> (k, Regex [] opts) \<notin> set (build_filter c t n b s sa q)"
  by (auto simp: build_filter_eq truthy_def split: if_splits option.splits)

text \<open>
  C2, as the code has it. A string parameter (\<^verbatim>\<open>category\<close>, \<^verbatim>\<open>season\<close>, \<^verbatim>\<open>q\<close>) counts
  when it is given and not empty, a boolean parameter (\<^verbatim>\<open>trending\<close>, \<^verbatim>\<open>new\<close>, \<^verbatim>\<open>best\<close>,
  \<^verbatim>\<open>sale\<close>) when it is given, true or false. The filter holds exactly one condition for
  each parameter that counts, on its stored field: equality for six of them, the search
  for \<^verbatim>\<open>q\<close> on \<^verbatim>\<open>title\<close>. With no parameter the filter is empty. A document matches
  the filter when it satisfies every condition (the query fails when a pattern does not
  compile).
\<close>

theorem filter_one_condition_per_parameter:
  "build_filter c t n b s sa q =
     (if truthy c then [(''category'', Eq (VStr (the c)))] else []) @
     (if truthy s then [(''season'', Eq (VStr (the s)))] else []) @
     (if t \<noteq> None then [(''is_trending'', Eq (VBool (the t)))] else []) @
     (if n \<noteq> None then [(''is_new'', Eq (VBool (the n)))] else []) @
     (if b \<noteq> None then [(''is_best_seller'', Eq (VBool (the b)))] else []) @
     (if sa \<noteq> None then [(''on_sale'', Eq (VBool (the sa)))] else []) @
     (if truthy q then [(''title'', Regex (the q) ''i'')] else [])
   \<and> build_filter None None None None None None None = []
   \<and> matches_doc E (build_filter c t n b s sa q) d =
       (if list_all (\<lambda>kc. cond_holds E (snd kc) \<noteq> None) (build_filter c t n b s sa q)
        then Some (list_all (\<lambda>kc. the (cond_holds E (snd kc)) (map_of d (fst kc)))
                     (build_filter c t n b s sa q))
        else None)"
  by (simp only: matches_doc_conj build_filter_eq [symmetric] simp_thms)
     (simp add: build_filter_eq truthy_def)

text \<open>The claim as written fails for a parameter given as the empty string: it is
  set, and the filter has no condition for it.\<close>

theorem filter_empty_category_counterexample:
  "Some [] \<noteq> (None :: string option)
   \<and> map_of (build_filter (Some []) None None None None None None) ''category'' = None"
  by (simp add: build_filter_eq truthy_def)

section \<open>The search parameter\<close>







section \<open>The detail endpoint\<close>





section \<open>The result cap\<close>






section \<open>Seeding\<close>

lemma insert_one_other: "c' \<noteq> c \<Longrightarrow> colls (snd (insert_one st c d)) c' = colls st c'"
  by (simp add: insert_one_def split: option.splits)

lemma insert_one_length:
  "length (colls (snd (insert_one st c d)) c) = Suc (length (colls st c))"
  by (simp add: insert_one_def split: option.splits)

lemma insert_each_count: "fst (insert_each st c ds n) = n + int (length ds)"
  by (induction ds arbitrary: st n) simp_all

lemma insert_each_length:
  "length (colls (snd (insert_each st c ds n)) c) = length (colls st c) + length ds"
  by (induction ds arbitrary: st n) (simp_all add: insert_one_length)

lemma insert_each_other:
  "c' \<noteq> c \<Longrightarrow> colls (snd (insert_each st c ds n)) c' = colls st c'"
  by (induction ds arbitrary: st n) (simp_all add: insert_one_other)

lemma insert_each_nil_colls: "colls (snd (insert_each st c [] n)) = colls st"
  by simp

lemma without_id_absent: "map_of d ''_id'' = None \<Longrightarrow> without_id d = d"
  by (induction d) (auto simp: without_id_def split: if_splits)

lemma insert_one_docs:
  assumes n: "map_of d ''_id'' = None"
  shows "map without_id (colls (snd (insert_one st c d)) c) = map without_id (colls st c) @ [d]"
proof -
  have "without_id (d @ [(''_id'', v)]) = d" for v
    using without_id_absent [OF n] by (simp add: without_id_def)
  then show ?thesis using n by (simp add: insert_one_def)
qed

lemma insert_each_docs:
  "\<forall>d \<in> set ds. map_of d ''_id'' = None \<Longrightarrow>
     map without_id (colls (snd (insert_each st c ds n)) c) = map without_id (colls st c) @ ds"
  by (induction ds arbitrary: st n) (simp_all add: insert_one_docs)

lemma seeds_bring_no_id:
  "\<forall>d \<in> set seed_banners. map_of d ''_id'' = None"
  "\<forall>d \<in> set sample_products. map_of d ''_id'' = None"
  by (simp_all add: seed_banners_def sample_products_def)

lemma seed_lengths: "length seed_banners = 3" "length sample_products = 3"
  by (simp_all add: seed_banners_def sample_products_def)

text \<open>What one call of \<^verbatim>\<open>seed_data\<close> does, collection by collection.\<close>

lemma seed_data_spec:
  "\<exists>st'. seed_data (Some st) =
           (Inr [(''status'', VStr ''ok''),
                 (''products'', VInt (if colls st ''product'' = [] then 3 else 0)),
                 (''banners'', VInt (if colls st ''banner'' = [] then 3 else 0))], Some st')
     \<and> (colls st ''banner'' = [] \<longrightarrow>
           length (colls st' ''banner'') = 3 \<and> map without_id (colls st' ''banner'') = seed_banners)
     \<and> (colls st ''product'' = [] \<longrightarrow>
           length (colls st' ''product'') = 3
           \<and> map without_id (colls st' ''product'') = sample_products)
     \<and> (colls st ''banner'' \<noteq> [] \<longrightarrow> colls st' ''banner'' = colls st ''banner'')
     \<and> (colls st ''product'' \<noteq> [] \<longrightarrow> colls st' ''product'' = colls st ''product'')"
proof -
  define st1 where "st1 = snd (count_documents st ''banner'')"
  define r2 where "r2 = (if colls st ''banner'' = [] then insert_each st1 ''banner'' seed_banners 0 else (0, st1))"
  define st3 where "st3 = snd (count_documents (snd r2) ''product'')"
  define r4 where "r4 = (if colls st ''product'' = [] then insert_each st3 ''product'' sample_products 0 else (0, st3))"
  have c1: "colls st1 = colls st" by (simp add: st1_def count_documents_def)
  have b2: "colls (snd r2) ''banner'' = (if colls st ''banner'' = [] then colls (snd (insert_each st1 ''banner'' seed_banners 0)) ''banner'' else colls st ''banner'')"
    by (simp add: r2_def c1)
  have p2: "colls (snd r2) ''product'' = colls st ''product''"
    by (simp add: r2_def c1 insert_each_other)
  have c3: "colls st3 = colls (snd r2)" by (simp add: st3_def count_documents_def)
  have b4: "colls (snd r4) ''banner'' = colls (snd r2) ''banner''"
    by (simp add: r4_def c3 insert_each_other)
  have p4: "colls (snd r4) ''product'' = (if colls st ''product'' = [] then colls (snd (insert_each st3 ''product'' sample_products 0)) ''product'' else colls st ''product'')"
    by (simp add: r4_def c3 p2)
  have f2: "fst r2 = (if colls st ''banner'' = [] then 3 else 0)"
    by (simp add: r2_def insert_each_count seed_lengths)
  have f4: "fst r4 = (if colls st ''product'' = [] then 3 else 0)"
    by (simp add: r4_def insert_each_count seed_lengths)
  have run: "seed_data (Some st) =
           (Inr [(''status'', VStr ''ok''), (''products'', VInt (fst r4)), (''banners'', VInt (fst r2))],
            Some (snd r4))"
    by (cases "colls st ''banner'' = []"; cases "colls st ''product'' = []")
       (simp_all add: seed_data_def count_documents_def split_beta Let_def r4_def st3_def r2_def
          st1_def insert_each_other)
  have lb: "colls st ''banner'' = [] \<longrightarrow>
      length (colls (snd r4) ''banner'') = 3
      \<and> map without_id (colls (snd r4) ''banner'') = seed_banners"
    by (simp add: b4 b2 insert_each_length insert_each_docs seeds_bring_no_id seed_lengths c1)
  have lp: "colls st ''product'' = [] \<longrightarrow>
      length (colls (snd r4) ''product'') = 3
      \<and> map without_id (colls (snd r4) ''product'') = sample_products"
    by (simp add: p4 insert_each_length insert_each_docs seeds_bring_no_id seed_lengths c3 p2)
  show ?thesis
    using run f2 f4 lb lp b4 b2 p4 by (intro exI [of _ "snd r4"]) simp
qed

text \<open>
  C6. From any store, \<^verbatim>\<open>seed_data\<close> decides each collection on its own count. A
  collection that is empty receives its three literal documents, in order, each with a
  fresh identifier, and is reported with 3; a collection that holds a document already
  receives nothing, is left as it was and is reported with 0; neither outcome depends
  on the other collection. Called again on the store it left, \<^verbatim>\<open>seed_data\<close> reports 0
  for both collections and leaves both as they were. On a store whose two collections
  are empty this is 3 banners and 3 products, then 0 and 0.
\<close>

theorem seed_data_idempotent:
  "\<exists>st1 st2.
      seed_data (Some st) =
        (Inr [(''status'', VStr ''ok''),
              (''products'', VInt (if colls st ''product'' = [] then 3 else 0)),
              (''banners'', VInt (if colls st ''banner'' = [] then 3 else 0))], Some st1)
    \<and> (colls st ''banner'' = [] \<longrightarrow>
          length (colls st1 ''banner'') = 3 \<and> map without_id (colls st1 ''banner'') = seed_banners)
    \<and> (colls st ''banner'' \<noteq> [] \<longrightarrow> colls st1 ''banner'' = colls st ''banner'')
    \<and> (colls st ''product'' = [] \<longrightarrow>
          length (colls st1 ''product'') = 3
          \<and> map without_id (colls st1 ''product'') = sample_products)
    \<and> (colls st ''product'' \<noteq> [] \<longrightarrow> colls st1 ''product'' = colls st ''product'')
    \<and> seed_data (Some st1) =
        (Inr [(''status'', VStr ''ok''), (''products'', VInt 0), (''banners'', VInt 0)], Some st2)
    \<and> colls st2 ''banner'' = colls st1 ''banner''
    \<and> colls st2 ''product'' = colls st1 ''product''"
proof -
  from seed_data_spec [of st] obtain st1 where
    r1: "seed_data (Some st) =
        (Inr [(''status'', VStr ''ok''),
              (''products'', VInt (if colls st ''product'' = [] then 3 else 0)),
              (''banners'', VInt (if colls st ''banner'' = [] then 3 else 0))], Some st1)"
    and be: "colls st ''banner'' = [] \<longrightarrow>
          length (colls st1 ''banner'') = 3 \<and> map without_id (colls st1 ''banner'') = seed_banners"
    and pe: "colls st ''product'' = [] \<longrightarrow>
          length (colls st1 ''product'') = 3
          \<and> map without_id (colls st1 ''product'') = sample_products"
    and bn: "colls st ''banner'' \<noteq> [] \<longrightarrow> colls st1 ''banner'' = colls st ''banner''"
    and pn: "colls st ''product'' \<noteq> [] \<longrightarrow> colls st1 ''product'' = colls st ''product''"
    by blast
  have n1: "colls st1 ''banner'' \<noteq> []" "colls st1 ''product'' \<noteq> []"
    using be bn pe pn by (cases "colls st ''banner'' = []"; cases "colls st ''product'' = []"; auto)+
  from seed_data_spec [of st1] n1 obtain st2 where
    r2: "seed_data (Some st1) =
        (Inr [(''status'', VStr ''ok''), (''products'', VInt 0), (''banners'', VInt 0)], Some st2)"
    and u: "colls st2 ''banner'' = colls st1 ''banner''" "colls st2 ''product'' = colls st1 ''product''"
    by auto
  show ?thesis
    using r1 be pe bn pn r2 u by (intro exI [of _ st1] exI [of _ st2]) blast
qed

theorem seed_data_idempotent_witness:
  "(\<exists>st1 st2.
      seed_data (Some empty_store) =
        (Inr [(''status'', VStr ''ok''), (''products'', VInt 3), (''banners'', VInt 3)], Some st1)
    \<and> length (colls st1 ''banner'') = 3 \<and> map without_id (colls st1 ''banner'') = seed_banners
    \<and> length (colls st1 ''product'') = 3 \<and> map without_id (colls st1 ''product'') = sample_products
    \<and> seed_data (Some st1) =
        (Inr [(''status'', VStr ''ok''), (''products'', VInt 0), (''banners'', VInt 0)], Some st2)
    \<and> colls st2 ''banner'' = colls st1 ''banner''
    \<and> colls st2 ''product'' = colls st1 ''product'')
   \<and> (\<exists>st1 st2.
      seed_data (Some store0) =
        (Inr [(''status'', VStr ''ok''), (''products'', VInt 0), (''banners'', VInt 3)], Some st1)
    \<and> map without_id (colls st1 ''banner'') = seed_banners
    \<and> colls st1 ''product'' = colls store0 ''product''
    \<and> seed_data (Some st1) =
        (Inr [(''status'', VStr ''ok''), (''products'', VInt 0), (''banners'', VInt 0)], Some st2))
   \<and> (\<exists>st1 st2.
      seed_data (Some (empty_store\<lparr>colls := (colls empty_store)(''banner'' := [[(''slug'', VStr ''mega-sale'')]])\<rparr>)) =
        (Inr [(''status'', VStr ''ok''), (''products'', VInt 3), (''banners'', VInt 0)], Some st1)
    \<and> colls st1 ''banner'' = [[(''slug'', VStr ''mega-sale'')]]
    \<and> map without_id (colls st1 ''product'') = sample_products
    \<and> seed_data (Some st1) =
        (Inr [(''status'', VStr ''ok''), (''products'', VInt 0), (''banners'', VInt 0)], Some st2))"
proof -
  have a: "colls empty_store ''banner'' = []" "colls empty_store ''product'' = []"
    by (simp_all add: empty_store_def)
  have b: "colls store0 ''banner'' = []" "colls store0 ''product'' \<noteq> []"
    by (simp_all add: store0_def)
  have c: "colls (empty_store\<lparr>colls := (colls empty_store)(''banner'' := [[(''slug'', VStr ''mega-sale'')]])\<rparr>) ''banner''
             = [[(''slug'', VStr ''mega-sale'')]]"
    "colls (empty_store\<lparr>colls := (colls empty_store)(''banner'' := [[(''slug'', VStr ''mega-sale'')]])\<rparr>) ''product'' = []"
    by (simp_all add: empty_store_def)
  have 1: "\<exists>st1 st2.
      seed_data (Some empty_store) =
        (Inr [(''status'', VStr ''ok''), (''products'', VInt 3), (''banners'', VInt 3)], Some st1)
    \<and> length (colls st1 ''banner'') = 3 \<and> map without_id (colls st1 ''banner'') = seed_banners
    \<and> length (colls st1 ''product'') = 3 \<and> map without_id (colls st1 ''product'') = sample_products
    \<and> seed_data (Some st1) =
        (Inr [(''status'', VStr ''ok''), (''products'', VInt 0), (''banners'', VInt 0)], Some st2)
    \<and> colls st2 ''banner'' = colls st1 ''banner''
    \<and> colls st2 ''product'' = colls st1 ''product''"
    using seed_data_idempotent [of empty_store] a by simp
  have 2: "\<exists>st1 st2.
      seed_data (Some store0) =
        (Inr [(''status'', VStr ''ok''), (''products'', VInt 0), (''banners'', VInt 3)], Some st1)
    \<and> map without_id (colls st1 ''banner'') = seed_banners
    \<and> colls st1 ''product'' = colls store0 ''product''
    \<and> seed_data (Some st1) =
        (Inr [(''status'', VStr ''ok''), (''products'', VInt 0), (''banners'', VInt 0)], Some st2)"
    using seed_data_idempotent [of store0] b by (simp only: if_True if_False simp_thms) blast
  have 3: "\<exists>st1 st2.
      seed_data (Some (empty_store\<lparr>colls := (colls empty_store)(''banner'' := [[(''slug'', VStr ''mega-sale'')]])\<rparr>)) =
        (Inr [(''status'', VStr ''ok''), (''products'', VInt 3), (''banners'', VInt 0)], Some st1)
    \<and> colls st1 ''banner'' = [[(''slug'', VStr ''mega-sale'')]]
    \<and> map without_id (colls st1 ''product'') = sample_products
    \<and> seed_data (Some st1) =
        (Inr [(''status'', VStr ''ok''), (''products'', VInt 0), (''banners'', VInt 0)], Some st2)"
    using seed_data_idempotent [of "empty_store\<lparr>colls := (colls empty_store)(''banner'' := [[(''slug'', VStr ''mega-sale'')]])\<rparr>"]
    unfolding c by (simp only: if_True if_False simp_thms list.simps) blast
  show ?thesis using 1 2 3 by blast
qed
section \<open>The Product schema\<close>

lemma rejected_Cons: "rejected ((k, ok) # cs) = (if ok then rejected cs else k # rejected cs)"
  by (simp add: rejected_def)

lemma rejected_Nil: "rejected [] = []"
  by (simp add: rejected_def)

lemma rejected_False: "rejected ((k, False) # cs) = k # rejected cs"
  by (simp add: rejected_def)

lemma rejected_True: "rejected ((k, True) # cs) = rejected cs"
  by (simp add: rejected_def)

lemma rejected_subset: "set (rejected cs) \<subseteq> fst ` set cs"
  by (auto simp: rejected_def)

text \<open>
  C7, as the code has it. The schema declares \<^verbatim>\<open>title\<close> as a required string and
  nothing more. A body without a title, or with the title \<^verbatim>\<open>null\<close>, is rejected with
  a validation error that names \<^verbatim>\<open>title\<close>, and the write endpoint returns that error
  without touching the store. A body whose title is a string, the empty one included, is
  never rejected on account of its title.
\<close>

theorem Product_title_required:
  "(map_of body ''title'' = None \<or> map_of body ''title'' = Some VNone \<longrightarrow>
      (\<exists>bad. Product E body = Inl (RequestValidationError bad) \<and> ''title'' \<in> set bad
           \<and> create_product E db body = (Inl (RequestValidationError bad), db)))
   \<and> (map_of body ''title'' = Some (VStr s) \<and> Product E body = Inl (RequestValidationError bad) \<longrightarrow>
        ''title'' \<notin> set bad)"
proof (intro conjI impI)
  obtain fs where fs: "Product_fields E body = (''title'', required (s_str E) (map_of body ''title'')) # fs"
    by (simp add: Product_fields_def)
  assume "map_of body ''title'' = None \<or> map_of body ''title'' = Some VNone"
  then have t: "required (s_str E) (map_of body ''title'') = None"
    by (auto simp: required_def s_str_def str_field_def)
  have "rejected (map (\<lambda>f. (fst f, snd f \<noteq> None)) (Product_fields E body))
          = ''title'' # rejected (map (\<lambda>f. (fst f, snd f \<noteq> None)) fs)"
    by (simp add: fs t rejected_False)
  then show "\<exists>bad. Product E body = Inl (RequestValidationError bad) \<and> ''title'' \<in> set bad
           \<and> create_product E db body = (Inl (RequestValidationError bad), db)"
    by (simp add: Product_def create_product_def)
next
  assume a: "map_of body ''title'' = Some (VStr s) \<and> Product E body = Inl (RequestValidationError bad)"
  then have t: "required (s_str E) (map_of body ''title'') = Some (VStr s)"
    by (simp add: required_def s_str_def str_field_def)
  have names: "map fst (tl (Product_fields E body)) =
     [''description'', ''price'', ''category'', ''images'', ''sizes'', ''in_stock'',
      ''is_trending'', ''is_new'', ''is_best_seller'', ''season'', ''on_sale'', ''sale_price'']"
    by (simp add: Product_fields_def)
  have hd: "Product_fields E body = (''title'', Some (VStr s)) # tl (Product_fields E body)"
    by (simp add: Product_fields_def t)
  have "rejected (map (\<lambda>f. (fst f, snd f \<noteq> None)) (Product_fields E body))
          = rejected (map (\<lambda>f. (fst f, snd f \<noteq> None)) (tl (Product_fields E body)))"
    by (subst hd) (simp add: rejected_True)
  moreover have "set (rejected (map (\<lambda>f. (fst f, snd f \<noteq> None)) (tl (Product_fields E body))))
          \<subseteq> set (map fst (tl (Product_fields E body)))"
    using rejected_subset [of "map (\<lambda>f. (fst f, snd f \<noteq> None)) (tl (Product_fields E body))"]
    by (simp add: image_image)
  ultimately have "''title'' \<notin> set (rejected (map (\<lambda>f. (fst f, snd f \<noteq> None)) (Product_fields E body)))"
    unfolding names by auto
  moreover from a have "bad = rejected (map (\<lambda>f. (fst f, snd f \<noteq> None)) (Product_fields E body))"
    by (simp add: Product_def split: list.splits)
  ultimately show "''title'' \<notin> set bad" by simp
qed

lemmas prod_defs = Product_def Product_fields_def required_def with_default_def s_str_def
  str_field_def s_float_ge0_def s_float_def float_of_int_def rejected_Cons rejected_Nil

theorem Product_title_required_witness:
  "\<forall>E. (map_of [(''price'', VInt 1000), (''category'', VStr ''Men'')] ''title'' = None
          \<or> map_of [(''price'', VInt 1000), (''category'', VStr ''Men'')] ''title'' = Some VNone)
     \<and> Product E [(''price'', VInt 1000), (''category'', VStr ''Men'')]
         = Inl (RequestValidationError [''title''])
     \<and> create_product E (Some store0) [(''price'', VInt 1000), (''category'', VStr ''Men'')]
         = (Inl (RequestValidationError [''title'']), Some store0)
     \<and> map_of [(''title'', VStr ''''), (''price'', VInt (- 5)), (''category'', VStr ''Men'')] ''title''
         = Some (VStr '''')
     \<and> Product E [(''title'', VStr ''''), (''price'', VInt (- 5)), (''category'', VStr ''Men'')]
         = Inl (RequestValidationError [''price''])
     \<and> ''title'' \<notin> set [''price'']"
proof
  fix E
  have a: "map_of [(''price'', VInt 1000), (''category'', VStr ''Men'')] ''title'' = None
          \<or> map_of [(''price'', VInt 1000), (''category'', VStr ''Men'')] ''title'' = Some VNone"
    by simp
  have b: "Product E [(''price'', VInt 1000), (''category'', VStr ''Men'')]
         = Inl (RequestValidationError [''title''])"
    by (simp add: prod_defs)
  have c: "map_of [(''title'', VStr ''''), (''price'', VInt (- 5)), (''category'', VStr ''Men'')] ''title''
         = Some (VStr '''')
     \<and> Product E [(''title'', VStr ''''), (''price'', VInt (- 5)), (''category'', VStr ''Men'')]
         = Inl (RequestValidationError [''price''])"
    by (simp add: prod_defs)
  show "(map_of [(''price'', VInt 1000), (''category'', VStr ''Men'')] ''title'' = None
          \<or> map_of [(''price'', VInt 1000), (''category'', VStr ''Men'')] ''title'' = Some VNone)
     \<and> Product E [(''price'', VInt 1000), (''category'', VStr ''Men'')]
         = Inl (RequestValidationError [''title''])
     \<and> create_product E (Some store0) [(''price'', VInt 1000), (''category'', VStr ''Men'')]
         = (Inl (RequestValidationError [''title'']), Some store0)
     \<and> map_of [(''title'', VStr ''''), (''price'', VInt (- 5)), (''category'', VStr ''Men'')] ''title''
         = Some (VStr '''')
     \<and> Product E [(''title'', VStr ''''), (''price'', VInt (- 5)), (''category'', VStr ''Men'')]
         = Inl (RequestValidationError [''price''])
     \<and> ''title'' \<notin> set [''price'']"
    using a b c
      Product_title_required [where body = "[(''price'', VInt 1000), (''category'', VStr ''Men'')]"
        and E = E and db = "Some store0" and s = "[]" and bad = "[''price'']"]
      Product_title_required [where body = "[(''title'', VStr ''''), (''price'', VInt (- 5)), (''category'', VStr ''Men'')]"
        and E = E and db = "Some store0" and s = "[]" and bad = "[''price'']"]
    by auto
qed

text \<open>The claim as written fails: a body whose title is the empty string passes the
  schema, and the write endpoint stores it and returns the new identifier.\<close>

theorem empty_title_accepted_counterexample:
  "\<forall>E. Product E [(''title'', VStr ''''), (''price'', VInt 1000), (''category'', VStr ''Men'')]
         = Inr [(''title'', VStr ''''), (''description'', VNone), (''price'', VFloat 1000),
                (''category'', VStr ''Men''), (''images'', VList []),
                (''sizes'', VList [VStr ''S'', VStr ''M'', VStr ''L'', VStr ''XL'']),
                (''in_stock'', VBool True), (''is_trending'', VBool False),
                (''is_new'', VBool False), (''is_best_seller'', VBool False),
                (''season'', VNone), (''on_sale'', VBool False), (''sale_price'', VNone)]
     \<and> fst (create_product E (Some store0)
              [(''title'', VStr ''''), (''price'', VInt 1000), (''category'', VStr ''Men'')])
         = Inr ''000000000000000000000003''"
proof
  fix E
  have p: "Product E [(''title'', VStr ''''), (''price'', VInt 1000), (''category'', VStr ''Men'')]
         = Inr [(''title'', VStr ''''), (''description'', VNone), (''price'', VFloat 1000),
                (''category'', VStr ''Men''), (''images'', VList []),
                (''sizes'', VList [VStr ''S'', VStr ''M'', VStr ''L'', VStr ''XL'']),
                (''in_stock'', VBool True), (''is_trending'', VBool False),
                (''is_new'', VBool False), (''is_best_seller'', VBool False),
                (''season'', VNone), (''on_sale'', VBool False), (''sale_price'', VNone)]"
    by (simp add: prod_defs)
  have h: "hex24 3 = ''000000000000000000000003''" by (simp add: hex24_def upt_rec)
  show "Product E [(''title'', VStr ''''), (''price'', VInt 1000), (''category'', VStr ''Men'')]
         = Inr [(''title'', VStr ''''), (''description'', VNone), (''price'', VFloat 1000),
                (''category'', VStr ''Men''), (''images'', VList []),
                (''sizes'', VList [VStr ''S'', VStr ''M'', VStr ''L'', VStr ''XL'']),
                (''in_stock'', VBool True), (''is_trending'', VBool False),
                (''is_new'', VBool False), (''is_best_seller'', VBool False),
                (''season'', VNone), (''on_sale'', VBool False), (''sale_price'', VNone)]
     \<and> fst (create_product E (Some store0)
              [(''title'', VStr ''''), (''price'', VInt 1000), (''category'', VStr ''Men'')])
         = Inr ''000000000000000000000003''"
    by (simp add: p h create_product_def create_document_def insert_one_def store0_def py_str_def
        split_beta)
qed

section \<open>Serialization\<close>

lemma rejected_eq_Nil: "(rejected cs = []) = list_all snd cs"
  by (induction cs) (auto simp: rejected_def)

lemma new_ProductOut_Inr:
  "(new_ProductOut E i t d p c ims szs stock trend nw best sea sale sp = Inr out) =
     (str_field E t \<noteq> None \<and> opt_str_field E d \<noteq> None \<and> str_field E c \<noteq> None
      \<and> opt_str_field E sea \<noteq> None
      \<and> out = \<lparr>ProductOut.id = i, title = the (str_field E t),
               description = the (opt_str_field E d), price = p,
               category = the (str_field E c), images = ims, sizes = szs,
               in_stock = stock, is_trending = trend, is_new = nw, is_best_seller = best,
               season = the (opt_str_field E sea), on_sale = sale, sale_price = sp\<rparr>)"
proof (cases "rejected [(''title'', str_field E t \<noteq> None), (''description'', opt_str_field E d \<noteq> None),
              (''category'', str_field E c \<noteq> None), (''season'', opt_str_field E sea \<noteq> None)]")
  case Nil
  then show ?thesis
    using rejected_eq_Nil [of "[(''title'', str_field E t \<noteq> None), (''description'', opt_str_field E d \<noteq> None),
              (''category'', str_field E c \<noteq> None), (''season'', opt_str_field E sea \<noteq> None)]"]
    by (auto simp: new_ProductOut_def)
next
  case (Cons a as)
  then show ?thesis
    using rejected_eq_Nil [of "[(''title'', str_field E t \<noteq> None), (''description'', opt_str_field E d \<noteq> None),
              (''category'', str_field E c \<noteq> None), (''season'', opt_str_field E sea \<noteq> None)]"]
    by (auto simp: new_ProductOut_def)
qed

lemma new_BannerOut_Inr:
  "(new_BannerOut E i t sub img sl = Inr out) =
     (str_field E t \<noteq> None \<and> opt_str_field E sub \<noteq> None \<and> opt_str_field E img \<noteq> None
      \<and> str_field E sl \<noteq> None
      \<and> out = \<lparr>BannerOut.id = i, title = the (str_field E t),
               subtitle = the (opt_str_field E sub), image = the (opt_str_field E img),
               slug = the (str_field E sl)\<rparr>)"
proof (cases "rejected [(''title'', str_field E t \<noteq> None), (''subtitle'', opt_str_field E sub \<noteq> None),
              (''image'', opt_str_field E img \<noteq> None), (''slug'', str_field E sl \<noteq> None)]")
  case Nil
  then show ?thesis
    using rejected_eq_Nil [of "[(''title'', str_field E t \<noteq> None), (''subtitle'', opt_str_field E sub \<noteq> None),
              (''image'', opt_str_field E img \<noteq> None), (''slug'', str_field E sl \<noteq> None)]"]
    by (auto simp: new_BannerOut_def)
next
  case (Cons a as)
  then show ?thesis
    using rejected_eq_Nil [of "[(''title'', str_field E t \<noteq> None), (''subtitle'', opt_str_field E sub \<noteq> None),
              (''image'', opt_str_field E img \<noteq> None), (''slug'', str_field E sl \<noteq> None)]"]
    by (auto simp: new_BannerOut_def)
qed

lemma serialize_product_Inr:
  "(serialize_product E d = Inr out) =
     (\<exists>p ims szs sp.
        py_float E (get_default d ''price'' (VInt 0)) = Inr p
      \<and> str_list E (get_default d ''images'' (VList [])) = Inr ims
      \<and> str_list E (get_default d ''sizes'' (VList [])) = Inr szs
      \<and> sale_arg E d = Inr sp
      \<and> str_field E (get d ''title'') \<noteq> None \<and> opt_str_field E (get d ''description'') \<noteq> None
      \<and> str_field E (get d ''category'') \<noteq> None \<and> opt_str_field E (get d ''season'') \<noteq> None
      \<and> out = \<lparr>ProductOut.id = py_str E (get d ''_id''), title = the (str_field E (get d ''title'')),
               description = the (opt_str_field E (get d ''description'')), price = p,
               category = the (str_field E (get d ''category'')), images = ims, sizes = szs,
               in_stock = py_bool (get_default d ''in_stock'' (VBool True)),
               is_trending = py_bool (get_default d ''is_trending'' (VBool False)),
               is_new = py_bool (get_default d ''is_new'' (VBool False)),
               is_best_seller = py_bool (get_default d ''is_best_seller'' (VBool False)),
               season = the (opt_str_field E (get d ''season'')),
               on_sale = py_bool (get_default d ''on_sale'' (VBool False)), sale_price = sp\<rparr>)"
  unfolding serialize_product_def sale_arg_def [symmetric]
  by (cases "py_float E (get_default d ''price'' (VInt 0))";
      cases "str_list E (get_default d ''images'' (VList []))";
      cases "str_list E (get_default d ''sizes'' (VList []))";
      cases "sale_arg E d")
     (simp_all add: bnd_def new_ProductOut_Inr)


lemma text_ok:
  "is_text (map_of d k) \<Longrightarrow> \<exists>s. map_of d k = Some (VStr s) \<and> str_field E (get d k) = Some s"
  by (auto simp: is_text_def get_def get_default_def str_field_def split: option.splits pyval.splits)

lemma opt_text_ok:
  "is_opt_text (map_of d k) \<Longrightarrow>
     opt_str_field E (get d k) = Some (case map_of d k of Some (VStr s) \<Rightarrow> Some s | _ \<Rightarrow> None)"
  by (auto simp: is_opt_text_def get_def get_default_def opt_str_field_def str_field_def
      split: option.splits pyval.splits)

lemma number_ok: "is_number (Some v) \<Longrightarrow> \<exists>r. py_float E v = Inr r"
  by (auto simp: is_number_def py_float_def float_of_int_int64 split: pyval.splits)

lemma float_zero: "py_float E (VInt 0) = Inr 0"
  by (simp add: py_float_def float_of_int_def)

lemma price_ok:
  "map_of d ''price'' = None \<or> is_number (map_of d ''price'') \<Longrightarrow>
     \<exists>p. py_float E (get_default d ''price'' (VInt 0)) = Inr p"
  by (cases "map_of d ''price''") (auto simp: get_default_def float_zero dest: number_ok)

lemma seq_ok:
  "map_of d k = None \<or> is_sequence (map_of d k) \<Longrightarrow>
     \<exists>xs. str_list E (get_default d k (VList [])) = Inr xs"
  by (cases "map_of d k")
     (auto simp: get_default_def str_list_def py_iter_def bnd_def is_sequence_def split: pyval.splits)

lemma sale_ok:
  "map_of d ''sale_price'' = None \<or> map_of d ''sale_price'' = Some VNone
     \<or> is_number (map_of d ''sale_price'') \<Longrightarrow>
   \<exists>sp. sale_arg E d = Inr sp"
  by (cases "map_of d ''sale_price''")
     (auto simp: sale_arg_def get_def get_default_def bnd_def dest: number_ok [of _ E])

text \<open>A document of the shape above is serialized.\<close>

lemma serialize_product_shape:
  assumes "product_shape d"
  shows "\<exists>out. serialize_product E d = Inr out"
proof -
  from assms obtain p where p: "py_float E (get_default d ''price'' (VInt 0)) = Inr p"
    unfolding product_shape_def using price_ok [of d E] by blast
  from assms obtain ims where i: "str_list E (get_default d ''images'' (VList [])) = Inr ims"
    unfolding product_shape_def using seq_ok [of d "''images''" E] by blast
  from assms obtain szs where s: "str_list E (get_default d ''sizes'' (VList [])) = Inr szs"
    unfolding product_shape_def using seq_ok [of d "''sizes''" E] by blast
  from assms obtain sp where sp: "sale_arg E d = Inr sp"
    unfolding product_shape_def using sale_ok [of d E] by blast
  from assms have t: "str_field E (get d ''title'') \<noteq> None" "str_field E (get d ''category'') \<noteq> None"
    unfolding product_shape_def using text_ok [of d "''title''" E] text_ok [of d "''category''" E]
    by auto
  from assms have o: "opt_str_field E (get d ''description'') \<noteq> None"
    "opt_str_field E (get d ''season'') \<noteq> None"
    unfolding product_shape_def by (simp_all add: opt_text_ok)
  show ?thesis using p i s sp t o by (simp add: serialize_product_Inr)
qed

text \<open>What a serialized product holds for the fields its document lacks.\<close>

lemma serialize_product_absent:
  assumes "serialize_product E d = Inr out"
  shows "ProductOut.id out = py_str E (get d ''_id'')"
    and "map_of d ''price'' = None \<Longrightarrow> price out = 0"
    and "map_of d ''images'' = None \<Longrightarrow> images out = []"
    and "map_of d ''sizes'' = None \<Longrightarrow> sizes out = []"
    and "map_of d ''in_stock'' = None \<Longrightarrow> in_stock out"
    and "map_of d ''is_trending'' = None \<Longrightarrow> \<not> is_trending out"
    and "map_of d ''is_new'' = None \<Longrightarrow> \<not> is_new out"
    and "map_of d ''is_best_seller'' = None \<Longrightarrow> \<not> is_best_seller out"
    and "map_of d ''on_sale'' = None \<Longrightarrow> \<not> on_sale out"
    and "map_of d ''sale_price'' = None \<or> map_of d ''sale_price'' = Some VNone \<Longrightarrow> sale_price out = None"
    and "map_of d ''description'' = None \<or> map_of d ''description'' = Some VNone \<Longrightarrow> description out = None"
    and "map_of d ''season'' = None \<or> map_of d ''season'' = Some VNone \<Longrightarrow> season out = None"
  using assms
  by (auto simp: serialize_product_Inr get_default_def get_def float_zero str_list_def py_iter_def
      bnd_def py_bool_def sale_arg_def opt_str_field_def)

lemma serialize_banner_shape:
  assumes "banner_shape d"
  shows "\<exists>out. serialize_banner E d = Inr out"
proof -
  from assms have t: "str_field E (get d ''title'') \<noteq> None" "str_field E (get d ''slug'') \<noteq> None"
    unfolding banner_shape_def using text_ok [of d "''title''" E] text_ok [of d "''slug''" E]
    by auto
  from assms have o: "opt_str_field E (get d ''subtitle'') \<noteq> None"
    "opt_str_field E (get d ''image'') \<noteq> None"
    unfolding banner_shape_def by (simp_all add: opt_text_ok)
  show ?thesis using t o by (simp add: serialize_banner_def new_BannerOut_Inr)
qed

lemma serialize_banner_absent:
  assumes "serialize_banner E d = Inr out"
  shows "BannerOut.id out = py_str E (get d ''_id'')"
    and "map_of d ''subtitle'' = None \<or> map_of d ''subtitle'' = Some VNone \<Longrightarrow> subtitle out = None"
    and "map_of d ''image'' = None \<or> map_of d ''image'' = Some VNone \<Longrightarrow> image out = None"
  using assms
  by (auto simp: serialize_banner_def new_BannerOut_Inr get_default_def get_def opt_str_field_def)

section \<open>The serializers on incomplete documents\<close>

lemmas shape_defs = product_shape_def banner_shape_def is_text_def is_opt_text_def is_number_def
  is_sequence_def int64_def

text \<open>
  C1, as the code has it. \<^verbatim>\<open>serialize_product\<close> returns an output for every product
  document that holds its title and its category as text and whose other fields, where
  it has them, hold values of the declared kind (the shape defined above); any subset of
  the other fields may be missing. In the output every missing field has its default:
  the text \<^verbatim>\<open>None\<close> for the identifier, 0.0 for the price, the empty list for the images
  and the sizes, true for \<^verbatim>\<open>in_stock\<close>, false for the other flags, and no value for the
  description, the season and the sale price, the last three also when they are stored
  as null. \<^verbatim>\<open>serialize_banner\<close> does the same for a banner document with a text title
  and slug. A document without \<^verbatim>\<open>sale_price\<close> and with \<^verbatim>\<open>on_sale\<close> false is the
  first example below.
\<close>

theorem serializers_total_on_shape:
  "(product_shape d \<longrightarrow>
      (\<exists>out. serialize_product E d = Inr out
         \<and> (map_of d ''_id'' = None \<longrightarrow> ProductOut.id out = ''None'')
         \<and> (map_of d ''description'' = None \<or> map_of d ''description'' = Some VNone \<longrightarrow>
              description out = None)
         \<and> (map_of d ''price'' = None \<longrightarrow> price out = 0)
         \<and> (map_of d ''images'' = None \<longrightarrow> images out = [])
         \<and> (map_of d ''sizes'' = None \<longrightarrow> sizes out = [])
         \<and> (map_of d ''in_stock'' = None \<longrightarrow> in_stock out)
         \<and> (map_of d ''is_trending'' = None \<longrightarrow> \<not> is_trending out)
         \<and> (map_of d ''is_new'' = None \<longrightarrow> \<not> is_new out)
         \<and> (map_of d ''is_best_seller'' = None \<longrightarrow> \<not> is_best_seller out)
         \<and> (map_of d ''season'' = None \<or> map_of d ''season'' = Some VNone \<longrightarrow> season out = None)
         \<and> (map_of d ''on_sale'' = None \<longrightarrow> \<not> on_sale out)
         \<and> (map_of d ''sale_price'' = None \<or> map_of d ''sale_price'' = Some VNone \<longrightarrow>
              sale_price out = None)))
   \<and> (banner_shape b \<longrightarrow>
      (\<exists>out. serialize_banner E b = Inr out
         \<and> (map_of b ''_id'' = None \<longrightarrow> BannerOut.id out = ''None'')
         \<and> (map_of b ''subtitle'' = None \<or> map_of b ''subtitle'' = Some VNone \<longrightarrow>
              subtitle out = None)
         \<and> (map_of b ''image'' = None \<or> map_of b ''image'' = Some VNone \<longrightarrow> image out = None)))"
proof (intro conjI impI)
  assume "product_shape d"
  then obtain out where out: "serialize_product E d = Inr out"
    using serialize_product_shape by blast
  have i: "map_of d ''_id'' = None \<longrightarrow> ProductOut.id out = ''None''"
    using serialize_product_absent(1) [OF out] by (simp add: get_def get_default_def py_str_def)
  show "\<exists>out. serialize_product E d = Inr out
         \<and> (map_of d ''_id'' = None \<longrightarrow> ProductOut.id out = ''None'')
         \<and> (map_of d ''description'' = None \<or> map_of d ''description'' = Some VNone \<longrightarrow>
              description out = None)
         \<and> (map_of d ''price'' = None \<longrightarrow> price out = 0)
         \<and> (map_of d ''images'' = None \<longrightarrow> images out = [])
         \<and> (map_of d ''sizes'' = None \<longrightarrow> sizes out = [])
         \<and> (map_of d ''in_stock'' = None \<longrightarrow> in_stock out)
         \<and> (map_of d ''is_trending'' = None \<longrightarrow> \<not> is_trending out)
         \<and> (map_of d ''is_new'' = None \<longrightarrow> \<not> is_new out)
         \<and> (map_of d ''is_best_seller'' = None \<longrightarrow> \<not> is_best_seller out)
         \<and> (map_of d ''season'' = None \<or> map_of d ''season'' = Some VNone \<longrightarrow> season out = None)
         \<and> (map_of d ''on_sale'' = None \<longrightarrow> \<not> on_sale out)
         \<and> (map_of d ''sale_price'' = None \<or> map_of d ''sale_price'' = Some VNone \<longrightarrow>
              sale_price out = None)"
    using out i serialize_product_absent(2-12) [OF out] by (intro exI [of _ out]) blast
next
  assume "banner_shape b"
  then obtain out where out: "serialize_banner E b = Inr out"
    using serialize_banner_shape by blast
  have i: "map_of b ''_id'' = None \<longrightarrow> BannerOut.id out = ''None''"
    using serialize_banner_absent(1) [OF out] by (simp add: get_def get_default_def py_str_def)
  show "\<exists>out. serialize_banner E b = Inr out
         \<and> (map_of b ''_id'' = None \<longrightarrow> BannerOut.id out = ''None'')
         \<and> (map_of b ''subtitle'' = None \<or> map_of b ''subtitle'' = Some VNone \<longrightarrow>
              subtitle out = None)
         \<and> (map_of b ''image'' = None \<or> map_of b ''image'' = Some VNone \<longrightarrow> image out = None)"
    using out i serialize_banner_absent(2-3) [OF out] by (intro exI [of _ out]) blast
qed

theorem serializers_total_on_shape_witness:
  "\<forall>E. product_shape [(''_id'', VOid ''000000000000000000000001''),
                       (''title'', VStr ''Gold Accent Hoodie''), (''price'', VInt 4999),
                       (''category'', VStr ''Women''), (''on_sale'', VBool False)]
     \<and> serialize_product E [(''_id'', VOid ''000000000000000000000001''),
                       (''title'', VStr ''Gold Accent Hoodie''), (''price'', VInt 4999),
                       (''category'', VStr ''Women''), (''on_sale'', VBool False)]
        = Inr \<lparr>ProductOut.id = ''000000000000000000000001'', title = ''Gold Accent Hoodie'',
                description = None, price = 4999, category = ''Women'', images = [], sizes = [],
                in_stock = True, is_trending = False, is_new = False, is_best_seller = False,
                season = None, on_sale = False, sale_price = None\<rparr>
     \<and> banner_shape [(''title'', VStr ''Mega Sale''), (''slug'', VStr ''mega-sale'')]
     \<and> serialize_banner E [(''title'', VStr ''Mega Sale''), (''slug'', VStr ''mega-sale'')]
        = Inr \<lparr>BannerOut.id = ''None'', title = ''Mega Sale'', subtitle = None, image = None,
                slug = ''mega-sale''\<rparr>"
proof
  fix E
  have a: "product_shape [(''_id'', VOid ''000000000000000000000001''),
                       (''title'', VStr ''Gold Accent Hoodie''), (''price'', VInt 4999),
                       (''category'', VStr ''Women''), (''on_sale'', VBool False)]"
    by (simp add: shape_defs)
  have b: "banner_shape [(''title'', VStr ''Mega Sale''), (''slug'', VStr ''mega-sale'')]"
    by (simp add: shape_defs)
  show "product_shape [(''_id'', VOid ''000000000000000000000001''),
                       (''title'', VStr ''Gold Accent Hoodie''), (''price'', VInt 4999),
                       (''category'', VStr ''Women''), (''on_sale'', VBool False)]
     \<and> serialize_product E [(''_id'', VOid ''000000000000000000000001''),
                       (''title'', VStr ''Gold Accent Hoodie''), (''price'', VInt 4999),
                       (''category'', VStr ''Women''), (''on_sale'', VBool False)]
        = Inr \<lparr>ProductOut.id = ''000000000000000000000001'', title = ''Gold Accent Hoodie'',
                description = None, price = 4999, category = ''Women'', images = [], sizes = [],
                in_stock = True, is_trending = False, is_new = False, is_best_seller = False,
                season = None, on_sale = False, sale_price = None\<rparr>
     \<and> banner_shape [(''title'', VStr ''Mega Sale''), (''slug'', VStr ''mega-sale'')]
     \<and> serialize_banner E [(''title'', VStr ''Mega Sale''), (''slug'', VStr ''mega-sale'')]
        = Inr \<lparr>BannerOut.id = ''None'', title = ''Mega Sale'', subtitle = None, image = None,
                slug = ''mega-sale''\<rparr>"
    using a b
      serializers_total_on_shape [where E = E
        and d = "[(''_id'', VOid ''000000000000000000000001''),
                       (''title'', VStr ''Gold Accent Hoodie''), (''price'', VInt 4999),
                       (''category'', VStr ''Women''), (''on_sale'', VBool False)]"
        and b = "[(''title'', VStr ''Mega Sale''), (''slug'', VStr ''mega-sale'')]"]
    by (simp add: serialize_product_def serialize_banner_def get_def get_default_def bnd_def
        py_float_def float_of_int_def str_list_def py_iter_def new_ProductOut_def
        new_BannerOut_def rejected_def str_field_def opt_str_field_def py_str_def py_bool_def)
qed

text \<open>The claim as written fails: the output models require a title, a category and
  a slug, so a stored document without one of them raises a validation error.\<close>

theorem serializers_missing_title_counterexample:
  "\<forall>E. serialize_product E [(''_id'', VOid ''000000000000000000000001''),
                            (''price'', VInt 2499), (''category'', VStr ''Men'')]
         = Inl (ValidationError [''title''])
     \<and> serialize_product E [] = Inl (ValidationError [''title'', ''category''])
     \<and> serialize_banner E [(''_id'', VOid ''000000000000000000000002''),
                            (''title'', VStr ''Mega Sale'')]
         = Inl (ValidationError [''slug''])"
  by (simp add: serialize_product_def serialize_banner_def get_def get_default_def bnd_def
        py_float_def float_of_int_def str_list_def py_iter_def new_ProductOut_def
        new_BannerOut_def rejected_def str_field_def opt_str_field_def py_str_def py_bool_def)

lemma serialize_product_price_zero:
  "map_of d ''price'' = None \<Longrightarrow>
     serialize_product E d = serialize_product E ((''price'', VInt 0) # d)"
  by (simp add: serialize_product_def get_def get_default_def)

text \<open>
  C9, as the code has it. For every product document without a price, the price
  argument of \<^verbatim>\<open>serialize_product\<close> is \<^verbatim>\<open>float(0)\<close>, which is 0.0 and does not raise;
  the document is serialized exactly as it would be with a stored price of 0; whatever
  output comes back has the price 0.0; and an output does come back when the rest of
  the document has the shape defined above (title and category held as text, the other
  fields missing or of the declared kind).
\<close>

theorem absent_price_is_zero:
  "map_of d ''price'' = None \<longrightarrow>
     py_float E (get_default d ''price'' (VInt 0)) = Inr 0
     \<and> serialize_product E d = serialize_product E ((''price'', VInt 0) # d)
     \<and> (\<forall>out. serialize_product E d = Inr out \<longrightarrow> price out = 0)
     \<and> (product_shape d \<longrightarrow> (\<exists>out. serialize_product E d = Inr out \<and> price out = 0))"
proof
  assume n: "map_of d ''price'' = None"
  then have a: "py_float E (get_default d ''price'' (VInt 0)) = Inr 0"
    by (simp add: get_default_def float_zero)
  have b: "\<forall>out. serialize_product E d = Inr out \<longrightarrow> price out = 0"
    using serialize_product_absent(2) n by blast
  have c: "product_shape d \<longrightarrow> (\<exists>out. serialize_product E d = Inr out \<and> price out = 0)"
    using serialize_product_shape [of d E] b by blast
  show "py_float E (get_default d ''price'' (VInt 0)) = Inr 0
     \<and> serialize_product E d = serialize_product E ((''price'', VInt 0) # d)
     \<and> (\<forall>out. serialize_product E d = Inr out \<longrightarrow> price out = 0)
     \<and> (product_shape d \<longrightarrow> (\<exists>out. serialize_product E d = Inr out \<and> price out = 0))"
    using a b c serialize_product_price_zero [OF n] by blast
qed

theorem absent_price_is_zero_witness:
  "\<forall>E. map_of [(''_id'', VOid ''000000000000000000000007''), (''title'', VStr ''Tee''),
               (''category'', VStr ''Men'')] ''price'' = None
     \<and> product_shape [(''_id'', VOid ''000000000000000000000007''), (''title'', VStr ''Tee''),
               (''category'', VStr ''Men'')]
     \<and> (\<exists>out. serialize_product E [(''_id'', VOid ''000000000000000000000007''),
               (''title'', VStr ''Tee''), (''category'', VStr ''Men'')] = Inr out
            \<and> price out = 0 \<and> title out = ''Tee'')"
proof
  fix E
  have a: "map_of [(''_id'', VOid ''000000000000000000000007''), (''title'', VStr ''Tee''),
               (''category'', VStr ''Men'')] ''price'' = None" by simp
  have b: "product_shape [(''_id'', VOid ''000000000000000000000007''), (''title'', VStr ''Tee''),
               (''category'', VStr ''Men'')]" by (simp add: shape_defs)
  have c: "serialize_product E [(''_id'', VOid ''000000000000000000000007''),
               (''title'', VStr ''Tee''), (''category'', VStr ''Men'')] = Inr out \<Longrightarrow> title out = ''Tee''" for out
    by (auto simp: serialize_product_Inr get_def get_default_def str_field_def)
  show "map_of [(''_id'', VOid ''000000000000000000000007''), (''title'', VStr ''Tee''),
               (''category'', VStr ''Men'')] ''price'' = None
     \<and> product_shape [(''_id'', VOid ''000000000000000000000007''), (''title'', VStr ''Tee''),
               (''category'', VStr ''Men'')]
     \<and> (\<exists>out. serialize_product E [(''_id'', VOid ''000000000000000000000007''),
               (''title'', VStr ''Tee''), (''category'', VStr ''Men'')] = Inr out
            \<and> price out = 0 \<and> title out = ''Tee'')"
    using a b c
      absent_price_is_zero [where E = E
        and d = "[(''_id'', VOid ''000000000000000000000007''), (''title'', VStr ''Tee''),
               (''category'', VStr ''Men'')]"]
    by blast
qed

text \<open>The claim as written fails: a document without a price that also lacks its title
  is not serialized at all.\<close>

theorem absent_price_missing_title_counterexample:
  "\<forall>E. map_of [(''_id'', VOid ''000000000000000000000007''), (''category'', VStr ''Men'')]
          ''price'' = None
     \<and> serialize_product E [(''_id'', VOid ''000000000000000000000007''),
                            (''category'', VStr ''Men'')]
         = Inl (ValidationError [''title''])"
  by (simp add: serialize_product_def get_def get_default_def bnd_def
        py_float_def float_of_int_def str_list_def py_iter_def new_ProductOut_def
        rejected_def str_field_def opt_str_field_def py_str_def py_bool_def)

lemma str_list_empty: "str_list E (VList []) = Inr []"
  by (simp add: str_list_def py_iter_def bnd_def)

text \<open>
  C10, as the code has it. For every product document without sizes, the sizes
  argument of \<^verbatim>\<open>serialize_product\<close> is the empty list and does not raise; whatever
  output comes back has no sizes, not the four sizes a new product gets by default; and
  an output does come back when the rest of the document has the shape defined above
  (title and category held as text, the other fields missing or of the declared kind).
  The same holds for a document without images.
\<close>

theorem absent_sizes_and_images_are_empty:
  "(map_of d ''sizes'' = None \<longrightarrow>
      str_list E (get_default d ''sizes'' (VList [])) = Inr []
      \<and> (\<forall>out. serialize_product E d = Inr out \<longrightarrow>
            sizes out = [] \<and> sizes out \<noteq> [''S'', ''M'', ''L'', ''XL''])
      \<and> (product_shape d \<longrightarrow> (\<exists>out. serialize_product E d = Inr out \<and> sizes out = [])))
   \<and> (map_of d ''images'' = None \<longrightarrow>
      str_list E (get_default d ''images'' (VList [])) = Inr []
      \<and> (\<forall>out. serialize_product E d = Inr out \<longrightarrow> images out = [])
      \<and> (product_shape d \<longrightarrow> (\<exists>out. serialize_product E d = Inr out \<and> images out = [])))"
proof (intro conjI impI)
  assume n: "map_of d ''sizes'' = None"
  show "str_list E (get_default d ''sizes'' (VList [])) = Inr []"
    using n by (simp add: get_default_def str_list_empty)
  show "\<forall>out. serialize_product E d = Inr out \<longrightarrow>
          sizes out = [] \<and> sizes out \<noteq> [''S'', ''M'', ''L'', ''XL'']"
    using serialize_product_absent(4) n by fastforce
  assume "product_shape d"
  then show "\<exists>out. serialize_product E d = Inr out \<and> sizes out = []"
    using serialize_product_shape [of d E] serialize_product_absent(4) n by blast
next
  assume n: "map_of d ''images'' = None"
  show "str_list E (get_default d ''images'' (VList [])) = Inr []"
    using n by (simp add: get_default_def str_list_empty)
  show "\<forall>out. serialize_product E d = Inr out \<longrightarrow> images out = []"
    using serialize_product_absent(3) n by blast
  assume "product_shape d"
  then show "\<exists>out. serialize_product E d = Inr out \<and> images out = []"
    using serialize_product_shape [of d E] serialize_product_absent(3) n by blast
qed

theorem absent_sizes_and_images_are_empty_witness:
  "\<forall>E. map_of [(''_id'', VOid ''000000000000000000000009''), (''title'', VStr ''Scarf''),
               (''price'', VFloat 1500), (''category'', VStr ''Winter Collection'')] ''sizes'' = None
     \<and> map_of [(''_id'', VOid ''000000000000000000000009''), (''title'', VStr ''Scarf''),
               (''price'', VFloat 1500), (''category'', VStr ''Winter Collection'')] ''images'' = None
     \<and> product_shape [(''_id'', VOid ''000000000000000000000009''), (''title'', VStr ''Scarf''),
               (''price'', VFloat 1500), (''category'', VStr ''Winter Collection'')]
     \<and> (\<exists>out. serialize_product E [(''_id'', VOid ''000000000000000000000009''),
               (''title'', VStr ''Scarf''), (''price'', VFloat 1500),
               (''category'', VStr ''Winter Collection'')] = Inr out
            \<and> sizes out = [] \<and> images out = [])"
proof
  fix E
  have a: "map_of [(''_id'', VOid ''000000000000000000000009''), (''title'', VStr ''Scarf''),
               (''price'', VFloat 1500), (''category'', VStr ''Winter Collection'')] ''sizes'' = None"
    by simp
  have b: "map_of [(''_id'', VOid ''000000000000000000000009''), (''title'', VStr ''Scarf''),
               (''price'', VFloat 1500), (''category'', VStr ''Winter Collection'')] ''images'' = None"
    by simp
  have c: "product_shape [(''_id'', VOid ''000000000000000000000009''), (''title'', VStr ''Scarf''),
               (''price'', VFloat 1500), (''category'', VStr ''Winter Collection'')]"
    by (simp add: shape_defs)
  show "map_of [(''_id'', VOid ''000000000000000000000009''), (''title'', VStr ''Scarf''),
               (''price'', VFloat 1500), (''category'', VStr ''Winter Collection'')] ''sizes'' = None
     \<and> map_of [(''_id'', VOid ''000000000000000000000009''), (''title'', VStr ''Scarf''),
               (''price'', VFloat 1500), (''category'', VStr ''Winter Collection'')] ''images'' = None
     \<and> product_shape [(''_id'', VOid ''000000000000000000000009''), (''title'', VStr ''Scarf''),
               (''price'', VFloat 1500), (''category'', VStr ''Winter Collection'')]
     \<and> (\<exists>out. serialize_product E [(''_id'', VOid ''000000000000000000000009''),
               (''title'', VStr ''Scarf''), (''price'', VFloat 1500),
               (''category'', VStr ''Winter Collection'')] = Inr out
            \<and> sizes out = [] \<and> images out = [])"
    using a b c
      absent_sizes_and_images_are_empty [where E = E
        and d = "[(''_id'', VOid ''000000000000000000000009''), (''title'', VStr ''Scarf''),
               (''price'', VFloat 1500), (''category'', VStr ''Winter Collection'')]"]
    by blast
qed

text \<open>The claim as written fails: a document without sizes and images that also lacks
  its category is not serialized at all.\<close>

theorem absent_sizes_missing_category_counterexample:
  "\<forall>E. map_of [(''title'', VStr ''Scarf''), (''price'', VFloat 1500)] ''sizes'' = None
     \<and> map_of [(''title'', VStr ''Scarf''), (''price'', VFloat 1500)] ''images'' = None
     \<and> serialize_product E [(''title'', VStr ''Scarf''), (''price'', VFloat 1500)]
         = Inl (ValidationError [''category''])"
  by (simp add: serialize_product_def get_def get_default_def bnd_def
        py_float_def float_of_int_def str_list_def py_iter_def new_ProductOut_def
        rejected_def str_field_def opt_str_field_def py_str_def py_bool_def)

end
